theory Spec2Isabelle
  imports Main
begin

section \<open>Common conventions\<close>

text \<open>
  A JavaScript value of type \<open>string | null\<close> is an optional string, and it is falsy
  exactly when it is missing or empty. Every \<open>if (x)\<close> and \<open>!x\<close> of the sources over
  such a value is written with \<open>truthy\<close>.
\<close>

definition truthy :: "string option \<Rightarrow> bool" where
  "truthy v = (case v of None \<Rightarrow> False | Some s \<Rightarrow> s \<noteq> [])"

text \<open>
  \<open>String.prototype.trim\<close> on strings whose characters are the code units below 256:
  it removes tab, line feed, vertical tab, form feed, carriage return, space and the
  no-break space from both ends.
\<close>

definition isWhiteSpace :: "char \<Rightarrow> bool" where
  "isWhiteSpace c = (c \<in> set [CHR 0x09, CHR 0x0A, CHR 0x0B, CHR 0x0C, CHR 0x0D, CHR 0x20, CHR 0xA0])"

definition trim :: "string \<Rightarrow> string" where
  "trim s = rev (dropWhile isWhiteSpace (rev (dropWhile isWhiteSpace s)))"

text \<open>A failed request: the rejected promise of an API call.\<close>

datatype api_error = ApiError

section \<open>Route guard (src/App.tsx)\<close>

text \<open>
  The application keeps three state variables: whether the initial read of the browser
  storage has been done, whether a token was found, and the role tag (an upper-cased
  string, or nothing).
\<close>

record app_state =
  authChecked :: bool
  isAuthenticated :: bool
  userRole :: "string option"

text \<open>\<open>getDashboardPath\<close>: a switch over the role string, with a default.\<close>

definition getDashboardPath :: "string option \<Rightarrow> string" where
  "getDashboardPath role =
     (if role = Some ''ESTUDANTE'' then ''/dashboard''
      else if role = Some ''ADMIN'' then ''/admin''
      else if role = Some ''MENTOR'' then ''/mentor''
      else ''/login'')"

text \<open>What a guarded route renders: nothing, a redirect, or its children.\<close>

datatype rendered = RenderNothing | Navigate string | RenderChildren

definition AuthWrapper :: "app_state \<Rightarrow> string option \<Rightarrow> rendered" where
  "AuthWrapper s requiredRole =
     (if \<not> authChecked s then RenderNothing
      else if \<not> isAuthenticated s then Navigate ''/login''
      else if truthy requiredRole \<and> userRole s \<noteq> requiredRole
        then Navigate (getDashboardPath (userRole s))
      else RenderChildren)"

text \<open>The three guarded routes of the route table and the role each one asks for.\<close>

datatype guarded_route = DashboardRoute | AdminRoute | MentorRoute

fun requiredRoleOf :: "guarded_route \<Rightarrow> string" where
  "requiredRoleOf DashboardRoute = ''ESTUDANTE''"
| "requiredRoleOf AdminRoute = ''ADMIN''"
| "requiredRoleOf MentorRoute = ''MENTOR''"

definition guardRoute :: "app_state \<Rightarrow> guarded_route \<Rightarrow> rendered" where
  "guardRoute s r = AuthWrapper s (Some (requiredRoleOf r))"

section \<open>Mentoring sessions and their calendar (the MentorMentoria page)\<close>

subsection \<open>Dates\<close>

text \<open>
  A valid \<open>Date\<close>, read in local time as the page reads it: its year, month and day of
  the month, and the time within the day. The invalid date is the \<open>None\<close> of
  \<open>jsdate option\<close>, and so is an absent one (\<open>undefined\<close>).
\<close>

record jsdate =
  getFullYear :: int
  getMonth :: nat
  getDate :: nat
  timeOfDay :: nat

text \<open>
  \<open>toDateString\<close> prints the local calendar day of a date and nothing of its time; the
  printed text is represented by the year, month and day it spells. \<open>new Date(text)\<close>
  reads such a text back as the start of that day, with the two exceptions of the
  engine's reading of a date text: a year from 0 to 49 is read as that year of the
  2000s and a year from 50 to 99 as that year of the 1900s, and a text with a year before
  0 is not read at all (the result is the invalid date).
\<close>

type_synonym dateString = "int \<times> nat \<times> nat"

definition toDateString :: "jsdate \<Rightarrow> dateString" where
  "toDateString d = (getFullYear d, getMonth d, getDate d)"

definition newDate :: "dateString \<Rightarrow> jsdate option" where
  "newDate k = (case k of (y, m, d) \<Rightarrow>
     if y < 0 then None
     else if y \<le> 49 then Some \<lparr>getFullYear = y + 2000, getMonth = m, getDate = d, timeOfDay = 0\<rparr>
     else if y \<le> 99 then Some \<lparr>getFullYear = y + 1900, getMonth = m, getDate = d, timeOfDay = 0\<rparr>
     else Some \<lparr>getFullYear = y, getMonth = m, getDate = d, timeOfDay = 0\<rparr>)"

text \<open>\<open>isSameDay\<close> of the date library: equal year, month and day, whatever the time.\<close>

definition isSameDay :: "jsdate \<Rightarrow> jsdate \<Rightarrow> bool" where
  "isSameDay a b = (toDateString a = toDateString b)"

text \<open>
  \<open>parseISO\<close> followed by \<open>isValid\<close>, a function of the date library: a parameter of
  everything below. It gives \<open>None\<close> where the text is no valid date (or parsing throws,
  which the page catches and treats alike).
\<close>

type_synonym parser = "string \<Rightarrow> jsdate option"

subsection \<open>Sessions, calendar events and the page state\<close>

text \<open>
  Modelled from the spec: the \<open>SessionType\<close> enumeration is declared outside the given
  sources; the spec gives it two values, video call and chat. The page only compares
  with \<open>CHAMADA_DE_VIDEO\<close>.
\<close>

datatype SessionType = CHAMADA_DE_VIDEO | CHAT

text \<open>
  \<open>TutorSessionResponseDTO\<close>, with the mentor and the student reduced to their ids. The
  date may be missing, which the page checks for.
\<close>

record TutorSessionResponseDTO =
  session_id :: string
  session_mentor :: string
  session_student :: string
  session_title :: string
  session_date :: "string option"
  session_dateHour :: string
  session_type :: SessionType
  session_link :: "string option"

record TutorSessionCreateDTO =
  create_mentorId :: string
  create_studentId :: string
  create_title :: string
  create_date :: "string option"
  create_dateHour :: string
  create_type :: SessionType
  create_link :: string

text \<open>An event's date is what \<open>new Date\<close> gave, which may be the invalid date.\<close>

record CalendarEvent =
  event_date :: "jsdate option"
  event_sessions :: nat

record mentoria_state =
  date :: "jsdate option"
  mentoringSessions :: "TutorSessionResponseDTO list"
  filteredSessions :: "TutorSessionResponseDTO list"
  activeSession :: "string option"
  calendarEvents :: "CalendarEvent list"
  loading :: bool
  showDeleteDialog :: bool
  sessionToDelete :: "string option"
  isDeleting :: bool
  showEditLinkDialog :: bool
  sessionToEdit :: "TutorSessionResponseDTO option"
  newLink :: string
  isUpdatingLink :: bool

text \<open>What a handler does besides changing the state: notifications, and calls that leave the page.\<close>

datatype notice =
    LoadFailed | LinkUnavailable | AlreadyActive | ChatStarted string
  | SessionEnded | EndFailed | SessionRefused | RefuseFailed
  | LinkInvalid | LinkUpdated | LinkUpdateFailed

datatype effect =
    ToastError notice
  | ToastSuccess notice
  | WindowOpen string
  | CallDeleteSession string
  | CallUpdateSession string TutorSessionCreateDTO
  | ConsoleError

subsection \<open>The calendar aggregation\<close>

text \<open>
  A JavaScript \<open>Map\<close> keeps its keys in insertion order; \<open>set\<close> on a key that is
  present replaces the value in place.
\<close>

fun mapSet :: "('k \<times> 'v) list \<Rightarrow> 'k \<Rightarrow> 'v \<Rightarrow> ('k \<times> 'v) list" where
  "mapSet [] k v = [(k, v)]"
| "mapSet ((k', v') # m) k v = (if k' = k then (k, v) # m else (k', v') # mapSet m k v)"

text \<open>The body of the \<open>forEach\<close> of \<open>updateCalendarEvents\<close>, for one session.\<close>

definition countSession :: "parser \<Rightarrow> (dateString \<times> nat) list \<Rightarrow> TutorSessionResponseDTO
    \<Rightarrow> (dateString \<times> nat) list" where
  "countSession parseISO eventMap session =
     (if \<not> truthy (session_date session) then eventMap
      else (case parseISO (the (session_date session)) of
              None \<Rightarrow> eventMap
            | Some sessionDate \<Rightarrow>
                (let dateStr = toDateString sessionDate
                 in mapSet eventMap dateStr
                      ((case map_of eventMap dateStr of None \<Rightarrow> 0 | Some n \<Rightarrow> n) + 1))))"

definition toEvent :: "dateString \<times> nat \<Rightarrow> CalendarEvent" where
  "toEvent e = \<lparr>event_date = newDate (fst e), event_sessions = snd e\<rparr>"

text \<open>\<open>updateCalendarEvents\<close>: the list it stores in \<open>calendarEvents\<close>.\<close>

definition updateCalendarEvents :: "parser \<Rightarrow> TutorSessionResponseDTO list \<Rightarrow> CalendarEvent list" where
  "updateCalendarEvents parseISO sessions = map toEvent (foldl (countSession parseISO) [] sessions)"

text \<open>
  The test both lookups apply to an event. The getters of the invalid date give \<open>NaN\<close>,
  which equals nothing.
\<close>

definition onDay :: "jsdate \<Rightarrow> CalendarEvent \<Rightarrow> bool" where
  "onDay day event =
     (case event_date event of
        None \<Rightarrow> False
      | Some eventDate \<Rightarrow>
          getDate eventDate = getDate day
          \<and> getMonth eventDate = getMonth day
          \<and> getFullYear eventDate = getFullYear day)"

definition isDayWithSession :: "CalendarEvent list \<Rightarrow> jsdate option \<Rightarrow> bool" where
  "isDayWithSession events day =
     (case day of None \<Rightarrow> False | Some d \<Rightarrow> list_ex (onDay d) events)"

definition getSessionCount :: "CalendarEvent list \<Rightarrow> jsdate option \<Rightarrow> nat" where
  "getSessionCount events day =
     (case day of
        None \<Rightarrow> 0
      | Some d \<Rightarrow> (case find (onDay d) events of None \<Rightarrow> 0 | Some event \<Rightarrow> event_sessions event))"

subsection \<open>The date filter\<close>

definition sessionOnDay :: "parser \<Rightarrow> jsdate \<Rightarrow> TutorSessionResponseDTO \<Rightarrow> bool" where
  "sessionOnDay parseISO selectedDate session =
     (case session_date session of
        None \<Rightarrow> False
      | Some text \<Rightarrow>
          (case parseISO text of None \<Rightarrow> False | Some sessionDate \<Rightarrow> isSameDay sessionDate selectedDate))"

text \<open>\<open>filterSessionsByDate\<close>: the list it stores in \<open>filteredSessions\<close>.\<close>

definition filterSessionsByDate :: "parser \<Rightarrow> TutorSessionResponseDTO list \<Rightarrow> jsdate option
    \<Rightarrow> TutorSessionResponseDTO list" where
  "filterSessionsByDate parseISO sessions selectedDate =
     (case selectedDate of
        None \<Rightarrow> sessions
      | Some d \<Rightarrow> filter (sessionOnDay parseISO d) sessions)"

text \<open>
  The effect that depends on \<open>date\<close> and \<open>mentoringSessions\<close>: after a render in which
  either changed, it filters the current list by the current date.
\<close>

definition filterEffect :: "parser \<Rightarrow> mentoria_state \<Rightarrow> mentoria_state" where
  "filterEffect parseISO st =
     st\<lparr>filteredSessions := filterSessionsByDate parseISO (mentoringSessions st) (date st)\<rparr>"

subsection \<open>The handlers\<close>

text \<open>
  A handler is a closure of the render that created it: the state variables it names
  are the values that render saw (\<open>seen\<close> below), while a functional update
  \<open>setX(prev => ...)\<close> works on the state current when it is applied (\<open>st\<close>). A button's
  handler runs in the render on screen, so there \<open>seen\<close> is \<open>st\<close>; after an \<open>await\<close>, or for
  a handler kept in a notification, the two may differ. The updates a handler makes after
  its \<open>await\<close> are applied together in one render, and the effect above runs after that
  render because \<open>mentoringSessions\<close> is a new array.
\<close>

definition fetchSessions :: "(api_error + TutorSessionResponseDTO list) \<Rightarrow> parser \<Rightarrow> string option
    \<Rightarrow> mentoria_state \<Rightarrow> mentoria_state \<times> effect list" where
  "fetchSessions getAllSessions parseISO mentorId st =
     (case getAllSessions of
        Inl e \<Rightarrow> (st\<lparr>loading := False\<rparr>, [ToastError LoadFailed, ConsoleError])
      | Inr sessions \<Rightarrow>
          (let mentorSessions = filter (\<lambda>session. Some (session_mentor session) = mentorId) sessions
           in (filterEffect parseISO
                 (st\<lparr>mentoringSessions := mentorSessions,
                     filteredSessions := mentorSessions,
                     calendarEvents := updateCalendarEvents parseISO mentorSessions,
                     loading := False\<rparr>), [])))"

definition handleStartMentoring :: "string \<Rightarrow> SessionType \<Rightarrow> string option \<Rightarrow> mentoria_state
    \<Rightarrow> mentoria_state \<times> effect list" where
  "handleStartMentoring sessionId type link st =
     (if type = CHAMADA_DE_VIDEO then
        (case link of
           None \<Rightarrow> (st, [ToastError LinkUnavailable])
         | Some l \<Rightarrow> if trim l = [] then (st, [ToastError LinkUnavailable]) else (st, [WindowOpen l]))
      else if truthy (activeSession st) then (st, [ToastError AlreadyActive])
      else (st\<lparr>activeSession := Some sessionId\<rparr>, [ToastSuccess (ChatStarted sessionId)]))"

definition removeSession :: "string \<Rightarrow> TutorSessionResponseDTO list \<Rightarrow> TutorSessionResponseDTO list" where
  "removeSession sessionId sessions = filter (\<lambda>s. session_id s \<noteq> sessionId) sessions"

definition handleEndSession :: "(string \<Rightarrow> api_error + unit) \<Rightarrow> parser \<Rightarrow> mentoria_state \<Rightarrow> string
    \<Rightarrow> mentoria_state \<Rightarrow> mentoria_state \<times> effect list" where
  "handleEndSession deleteSession parseISO seen sessionId st =
     (case deleteSession sessionId of
        Inl e \<Rightarrow> (st, [CallDeleteSession sessionId, ToastError EndFailed, ConsoleError])
      | Inr u \<Rightarrow>
          (filterEffect parseISO
             (st\<lparr>activeSession := None,
                 mentoringSessions := removeSession sessionId (mentoringSessions st),
                 calendarEvents :=
                   updateCalendarEvents parseISO (removeSession sessionId (mentoringSessions seen)),
                 filteredSessions := filterSessionsByDate parseISO (mentoringSessions seen) (date seen)\<rparr>),
           [CallDeleteSession sessionId, ToastSuccess SessionEnded]))"

definition handleRefuseSession :: "string \<Rightarrow> mentoria_state \<Rightarrow> mentoria_state" where
  "handleRefuseSession sessionId st = st\<lparr>sessionToDelete := Some sessionId, showDeleteDialog := True\<rparr>"

definition closeDeleteDialog :: "mentoria_state \<Rightarrow> mentoria_state" where
  "closeDeleteDialog st = st\<lparr>isDeleting := False, showDeleteDialog := False, sessionToDelete := None\<rparr>"

definition handleConfirmRefuse :: "(string \<Rightarrow> api_error + unit) \<Rightarrow> parser \<Rightarrow> mentoria_state
    \<Rightarrow> mentoria_state \<Rightarrow> mentoria_state \<times> effect list" where
  "handleConfirmRefuse deleteSession parseISO seen st =
     (if \<not> truthy (sessionToDelete seen) then (st, [])
      else
        (let sessionId = the (sessionToDelete seen); st1 = st\<lparr>isDeleting := True\<rparr>
         in (case deleteSession sessionId of
               Inl e \<Rightarrow>
                 (closeDeleteDialog st1, [CallDeleteSession sessionId, ToastError RefuseFailed, ConsoleError])
             | Inr u \<Rightarrow>
                 (filterEffect parseISO
                    (closeDeleteDialog
                       (st1\<lparr>mentoringSessions := removeSession sessionId (mentoringSessions st1),
                            calendarEvents :=
                              updateCalendarEvents parseISO (removeSession sessionId (mentoringSessions seen)),
                            filteredSessions :=
                              filterSessionsByDate parseISO (mentoringSessions seen) (date seen)\<rparr>)),
                  [CallDeleteSession sessionId, ToastSuccess SessionRefused]))))"

definition handleEditLink :: "TutorSessionResponseDTO \<Rightarrow> mentoria_state \<Rightarrow> mentoria_state" where
  "handleEditLink session st =
     st\<lparr>sessionToEdit := Some session,
        newLink := (if truthy (session_link session) then the (session_link session) else []),
        showEditLinkDialog := True\<rparr>"

definition closeEditDialog :: "mentoria_state \<Rightarrow> mentoria_state" where
  "closeEditDialog st =
     st\<lparr>isUpdatingLink := False, showEditLinkDialog := False, sessionToEdit := None, newLink := []\<rparr>"

definition handleConfirmEditLink :: "(string \<Rightarrow> TutorSessionCreateDTO \<Rightarrow> api_error + TutorSessionResponseDTO)
    \<Rightarrow> parser \<Rightarrow> mentoria_state \<Rightarrow> mentoria_state \<Rightarrow> mentoria_state \<times> effect list" where
  "handleConfirmEditLink updateSession parseISO seen st =
     (case sessionToEdit seen of
        None \<Rightarrow> (st, [ToastError LinkInvalid])
      | Some edited \<Rightarrow>
          if trim (newLink seen) = [] then (st, [ToastError LinkInvalid])
          else
            (let st1 = st\<lparr>isUpdatingLink := True\<rparr>;
                 updateData = \<lparr>create_mentorId = session_mentor edited,
                               create_studentId = session_student edited,
                               create_title = session_title edited,
                               create_date = session_date edited,
                               create_dateHour = session_dateHour edited,
                               create_type = session_type edited,
                               create_link = trim (newLink seen)\<rparr>
             in (case updateSession (session_id edited) updateData of
                   Inl e \<Rightarrow>
                     (closeEditDialog st1,
                      [CallUpdateSession (session_id edited) updateData,
                       ToastError LinkUpdateFailed, ConsoleError])
                 | Inr updatedSession \<Rightarrow>
                     (filterEffect parseISO
                        (closeEditDialog
                           (st1\<lparr>mentoringSessions :=
                                  map (\<lambda>session. if session_id session = session_id edited
                                                  then updatedSession else session)
                                      (mentoringSessions st1),
                                filteredSessions :=
                                  filterSessionsByDate parseISO (mentoringSessions seen) (date seen)\<rparr>)),
                      [CallUpdateSession (session_id edited) updateData, ToastSuccess LinkUpdated]))))"

subsection \<open>Vocabulary of the properties\<close>

text \<open>
  A session counts for a calendar day when its date is present, non-empty and parses to
  a valid date of that day.
\<close>

definition datedOn :: "parser \<Rightarrow> dateString \<Rightarrow> TutorSessionResponseDTO \<Rightarrow> bool" where
  "datedOn parseISO k session =
     (truthy (session_date session)
      \<and> map_option toDateString (parseISO (the (session_date session))) = Some k)"

text \<open>
  A session's date is in a plain year when, being present and valid, its year is 100 or
  later: the years whose printed day text is read back as the same day.
\<close>

definition plainYear :: "parser \<Rightarrow> TutorSessionResponseDTO \<Rightarrow> bool" where
  "plainYear parseISO session =
     (if truthy (session_date session)
      then (case parseISO (the (session_date session)) of
              None \<Rightarrow> True
            | Some sessionDate \<Rightarrow> 100 \<le> getFullYear sessionDate)
      else True)"

definition sessionsOn :: "parser \<Rightarrow> jsdate \<Rightarrow> TutorSessionResponseDTO list \<Rightarrow> nat" where
  "sessionsOn parseISO day sessions = length (filter (datedOn parseISO (toDateString day)) sessions)"

text \<open>The count a map of days holds for a day, zero for a day it lacks.\<close>

definition countOf :: "('k \<times> nat) list \<Rightarrow> 'k \<Rightarrow> nat" where
  "countOf m k = (case map_of m k of None \<Rightarrow> 0 | Some n \<Rightarrow> n)"

text \<open>A parser fixed on a few texts, and sessions built on them, for the worked examples.\<close>

definition sampleParse :: parser where
  "sampleParse text =
     (if text = ''2024-05-10T09:00'' then Some \<lparr>getFullYear = 2024, getMonth = 4, getDate = 10, timeOfDay = 540\<rparr>
      else if text = ''2024-05-10T14:30'' then Some \<lparr>getFullYear = 2024, getMonth = 4, getDate = 10, timeOfDay = 870\<rparr>
      else if text = ''2024-05-10'' then Some \<lparr>getFullYear = 2024, getMonth = 4, getDate = 10, timeOfDay = 0\<rparr>
      else if text = ''2024-05-11'' then Some \<lparr>getFullYear = 2024, getMonth = 4, getDate = 11, timeOfDay = 0\<rparr>
      else None)"

definition sampleSession :: "string \<Rightarrow> string option \<Rightarrow> TutorSessionResponseDTO" where
  "sampleSession i d =
     \<lparr>session_id = i, session_mentor = ''m1'', session_student = ''st1'', session_title = ''Revisao'',
      session_date = d, session_dateHour = ''09:00'', session_type = CHAT, session_link = None\<rparr>"

definition may10 :: jsdate where
  "may10 = \<lparr>getFullYear = 2024, getMonth = 4, getDate = 10, timeOfDay = 720\<rparr>"


definition emptyPage :: mentoria_state where
  "emptyPage =
     \<lparr>date = None, mentoringSessions = [], filteredSessions = [], activeSession = None,
      calendarEvents = [], loading = True, showDeleteDialog = False, sessionToDelete = None,
      isDeleting = False, showEditLinkDialog = False, sessionToEdit = None, newLink = [],
      isUpdatingLink = False\<rparr>"

text \<open>
  A run of the page with two chat sessions on the same day. The mentor starts the chat
  of session A, whose notification keeps the \<open>handleEndSession\<close> of the render on screen
  at that moment (\<open>runLoaded\<close>); then refuses session B and confirms; then presses
  "end chat" in the notification.
\<close>

definition sessionA :: TutorSessionResponseDTO where
  "sessionA = sampleSession ''A'' (Some ''2024-05-10T09:00'')"

definition sessionB :: TutorSessionResponseDTO where
  "sessionB = sampleSession ''B'' (Some ''2024-05-10T14:30'')"

definition deleteOk :: "string \<Rightarrow> api_error + unit" where
  "deleteOk sessionId = Inr ()"

definition runLoaded :: mentoria_state where
  "runLoaded = fst (fetchSessions (Inr [sessionA, sessionB]) sampleParse (Some ''m1'') emptyPage)"

definition runChatStarted :: mentoria_state where
  "runChatStarted = fst (handleStartMentoring ''A'' CHAT None runLoaded)"

definition runRefuseAsked :: mentoria_state where
  "runRefuseAsked = handleRefuseSession ''B'' runChatStarted"

definition runRefused :: mentoria_state where
  "runRefused = fst (handleConfirmRefuse deleteOk sampleParse runRefuseAsked runRefuseAsked)"

definition runEnded :: mentoria_state where
  "runEnded = fst (handleEndSession deleteOk sampleParse runLoaded ''A'' runRefused)"

text \<open>A parser for two texts of early years, for the examples of how such years are read back.\<close>

definition earlyParse :: parser where
  "earlyParse text =
     (if text = ''0050-01-01'' then Some \<lparr>getFullYear = 50, getMonth = 0, getDate = 1, timeOfDay = 0\<rparr>
      else if text = ''-000001-01-01'' then Some \<lparr>getFullYear = - 1, getMonth = 0, getDate = 1, timeOfDay = 0\<rparr>
      else None)"

subsection \<open>Runs of the page\<close>

text \<open>
  A run of the page, newest state first. The page mounts with today's date selected and
  nothing loaded. The sessions come from the backend, whose session ids are not empty:
  that is asked of every list the fetch delivers and of every session an update
  returns. Every button acts on a session of the list on screen; a handler that awaits,
  or that a notification keeps, may be the closure of an earlier render \<open>seen\<close>.
\<close>

inductive pageRun :: "parser \<Rightarrow> mentoria_state list \<Rightarrow> bool" for parseISO :: parser where
  pageMounted:
    "pageRun parseISO [emptyPage\<lparr>date := Some today\<rparr>]"
| sessionsFetched:
    "pageRun parseISO (st # past) \<Longrightarrow> list_all (\<lambda>s. session_id s \<noteq> []) sessions
       \<Longrightarrow> pageRun parseISO (fst (fetchSessions (Inr sessions) parseISO mentorId st) # st # past)"
| fetchFailed:
    "pageRun parseISO (st # past)
       \<Longrightarrow> pageRun parseISO (fst (fetchSessions (Inl e) parseISO mentorId st) # st # past)"
| daySelected:
    "pageRun parseISO (st # past)
       \<Longrightarrow> pageRun parseISO (filterEffect parseISO (st\<lparr>date := selectedDate\<rparr>) # st # past)"
| startPressed:
    "pageRun parseISO (st # past) \<Longrightarrow> session \<in> set (filteredSessions st)
       \<Longrightarrow> pageRun parseISO
            (fst (handleStartMentoring (session_id session) (session_type session) (session_link session) st)
             # st # past)"
| endPressed:
    "pageRun parseISO (st # past) \<Longrightarrow> seen \<in> set (st # past)
       \<Longrightarrow> pageRun parseISO (fst (handleEndSession deleteSession parseISO seen sessionId st) # st # past)"
| refusePressed:
    "pageRun parseISO (st # past) \<Longrightarrow> session \<in> set (filteredSessions st)
       \<Longrightarrow> pageRun parseISO (handleRefuseSession (session_id session) st # st # past)"
| refuseConfirmed:
    "pageRun parseISO (st # past) \<Longrightarrow> seen \<in> set (st # past)
       \<Longrightarrow> pageRun parseISO (fst (handleConfirmRefuse deleteSession parseISO seen st) # st # past)"
| refuseCancelled:
    "pageRun parseISO (st # past)
       \<Longrightarrow> pageRun parseISO (st\<lparr>showDeleteDialog := False, sessionToDelete := None\<rparr> # st # past)"
| deleteDialogToggled:
    "pageRun parseISO (st # past) \<Longrightarrow> pageRun parseISO (st\<lparr>showDeleteDialog := shown\<rparr> # st # past)"
| editPressed:
    "pageRun parseISO (st # past) \<Longrightarrow> session \<in> set (filteredSessions st)
       \<Longrightarrow> pageRun parseISO (handleEditLink session st # st # past)"
| linkTyped:
    "pageRun parseISO (st # past) \<Longrightarrow> pageRun parseISO (st\<lparr>newLink := typed\<rparr> # st # past)"
| editConfirmed:
    "pageRun parseISO (st # past) \<Longrightarrow> seen \<in> set (st # past)
       \<Longrightarrow> (\<forall>i d s. updateSession i d = Inr s \<longrightarrow> session_id s \<noteq> [])
       \<Longrightarrow> pageRun parseISO (fst (handleConfirmEditLink updateSession parseISO seen st) # st # past)"
| editCancelled:
    "pageRun parseISO (st # past)
       \<Longrightarrow> pageRun parseISO
            (st\<lparr>showEditLinkDialog := False, sessionToEdit := None, newLink := []\<rparr> # st # past)"
| editDialogToggled:
    "pageRun parseISO (st # past) \<Longrightarrow> pageRun parseISO (st\<lparr>showEditLinkDialog := shown\<rparr> # st # past)"

text \<open>Every session a state lists has an id, and so has the active session if there is one.\<close>

definition idsPresent :: "mentoria_state \<Rightarrow> bool" where
  "idsPresent st =
     (list_all (\<lambda>s. session_id s \<noteq> []) (mentoringSessions st)
      \<and> list_all (\<lambda>s. session_id s \<noteq> []) (filteredSessions st)
      \<and> (case activeSession st of None \<Rightarrow> True | Some sessionId \<Rightarrow> sessionId \<noteq> []))"

section \<open>Messaging (the MentorMessages and StudentMessages pages)\<close>

subsection \<open>Users, messages and counterpart records\<close>

text \<open>
  Modelled from the spec: the \<open>UserRole\<close> enumeration is declared outside the given
  sources; the spec names its three tags. The pages compare with \<open>ESTUDANTE\<close> and
  \<open>MENTOR\<close>.
\<close>

datatype UserRole = ESTUDANTE | ADMIN | MENTOR

record UserResponseDTO =
  user_id :: string
  user_name :: string
  user_role :: UserRole

record MessageResponseDTO =
  remetente :: UserResponseDTO
  destinatario :: UserResponseDTO
  content :: string

record MessageCreateDTO =
  remetenteId :: string
  destinatarioId :: string
  create_content :: string

text \<open>
  \<open>StudentChat\<close> and \<open>MentorChat\<close> are the same interface. A time is a \<open>Date\<close>, kept as
  its milliseconds (\<open>getTime\<close>).
\<close>

record chat =
  chat_id :: string
  chat_name :: string
  avatar :: "string option"
  lastMessage :: "string option"
  lastMessageTime :: "int option"
  unread :: bool

type_synonym StudentChat = chat
type_synonym MentorChat = chat

datatype page_error = NothingFound | FetchFailed | NoUserId

subsection \<open>Sorting the counterparts\<close>

text \<open>The comparator both pages pass to \<open>sort\<close>: most recent first, records without a time last.\<close>

definition compareChats :: "chat \<Rightarrow> chat \<Rightarrow> int" where
  "compareChats a b =
     (case lastMessageTime a of
        None \<Rightarrow> (case lastMessageTime b of None \<Rightarrow> 0 | Some tb \<Rightarrow> 1)
      | Some ta \<Rightarrow> (case lastMessageTime b of None \<Rightarrow> - 1 | Some tb \<Rightarrow> tb - ta))"

text \<open>
  \<open>Array.prototype.sort\<close> is stable; for a comparator that orders consistently, as this
  one does, its result is the stable sorted arrangement, which inserting from the right
  computes.
\<close>

fun insertSorted :: "('a \<Rightarrow> 'a \<Rightarrow> int) \<Rightarrow> 'a \<Rightarrow> 'a list \<Rightarrow> 'a list" where
  "insertSorted cmp x [] = [x]"
| "insertSorted cmp x (y # ys) = (if cmp x y \<le> 0 then x # y # ys else y # insertSorted cmp x ys)"

definition arraySort :: "('a \<Rightarrow> 'a \<Rightarrow> int) \<Rightarrow> 'a list \<Rightarrow> 'a list" where
  "arraySort cmp xs = foldr (insertSorted cmp) xs []"

subsection \<open>The mentor's page\<close>

record mentor_messages =
  selectedStudent :: "StudentChat option"
  studentsWithChats :: "StudentChat list"
  studentsWithoutChats :: "StudentChat list"
  mentor_loading :: bool
  mentor_error :: "page_error option"
  mentor_showChatOnMobile :: bool

definition studentOf :: "MessageResponseDTO \<Rightarrow> UserResponseDTO option" where
  "studentOf message =
     (if user_role (remetente message) = ESTUDANTE then Some (remetente message)
      else if user_role (destinatario message) = ESTUDANTE then Some (destinatario message)
      else None)"

text \<open>The body of the \<open>forEach\<close> over the messages: the first message of a student makes the record.\<close>

definition addStudent :: "(string \<times> StudentChat) list \<Rightarrow> MessageResponseDTO \<Rightarrow> (string \<times> StudentChat) list" where
  "addStudent studentMap message =
     (case studentOf message of
        None \<Rightarrow> studentMap
      | Some student \<Rightarrow>
          if user_role student = ESTUDANTE \<and> map_of studentMap (user_id student) = None
          then mapSet studentMap (user_id student)
                 \<lparr>chat_id = user_id student, chat_name = user_name student, avatar = None,
                  lastMessage = Some (content message), lastMessageTime = None, unread = False\<rparr>
          else studentMap)"

definition studentsWithChatsList :: "MessageResponseDTO list \<Rightarrow> MessageResponseDTO list \<Rightarrow> StudentChat list" where
  "studentsWithChatsList receivedMessages sentMessages =
     arraySort compareChats
       (map snd (foldl addStudent [] (rev (receivedMessages @ sentMessages))))"

definition rosterChat :: "UserResponseDTO \<Rightarrow> chat" where
  "rosterChat user =
     \<lparr>chat_id = user_id user, chat_name = user_name user, avatar = None,
      lastMessage = None, lastMessageTime = None, unread = False\<rparr>"

definition studentsWithoutChatsList :: "StudentChat list \<Rightarrow> UserResponseDTO list \<Rightarrow> StudentChat list" where
  "studentsWithoutChatsList withChats allStudents =
     map rosterChat
       (filter (\<lambda>student. user_role student = ESTUDANTE \<and> user_id student \<notin> set (map chat_id withChats))
          allStudents)"

definition MentorMessages_fetchData :: "string option \<Rightarrow> (api_error + MessageResponseDTO list)
    \<Rightarrow> (api_error + MessageResponseDTO list) \<Rightarrow> (api_error + UserResponseDTO list)
    \<Rightarrow> mentor_messages \<Rightarrow> mentor_messages" where
  "MentorMessages_fetchData mentorId getReceivedMessages getSentMessages getAllStudents st =
     (if truthy mentorId then
        (case getReceivedMessages of
           Inl e \<Rightarrow> st\<lparr>mentor_error := Some FetchFailed, mentor_loading := False\<rparr>
         | Inr receivedMessages \<Rightarrow>
        (case getSentMessages of
           Inl e \<Rightarrow> st\<lparr>mentor_error := Some FetchFailed, mentor_loading := False\<rparr>
         | Inr sentMessages \<Rightarrow>
        (case getAllStudents of
           Inl e \<Rightarrow> st\<lparr>mentor_error := Some FetchFailed, mentor_loading := False\<rparr>
         | Inr allStudents \<Rightarrow>
             (let withChats = studentsWithChatsList receivedMessages sentMessages;
                  withoutChats = studentsWithoutChatsList withChats allStudents
              in st\<lparr>studentsWithChats := withChats,
                    studentsWithoutChats := withoutChats,
                    mentor_error := (if withChats = [] \<and> withoutChats = []
                                     then Some NothingFound else None),
                    mentor_loading := False\<rparr>))))
      else st\<lparr>mentor_error := Some NoUserId, mentor_loading := False\<rparr>)"

text \<open>
  \<open>handleSendMessage\<close> of the mentor's page. It catches a failed send itself, so the
  promise it returns is fulfilled on every path: the first component of the result is
  how the promise settles.
\<close>

definition MentorMessages_handleSendMessage :: "(MessageCreateDTO \<Rightarrow> api_error + MessageResponseDTO)
    \<Rightarrow> int \<Rightarrow> string option \<Rightarrow> mentor_messages \<Rightarrow> string \<Rightarrow> mentor_messages
    \<Rightarrow> (api_error + unit) \<times> mentor_messages" where
  "MentorMessages_handleSendMessage sendMessage now mentorId seen text st =
     (case selectedStudent seen of
        None \<Rightarrow> (Inr (), st)
      | Some selected \<Rightarrow>
          if \<not> truthy mentorId then (Inr (), st)
          else
            (case sendMessage \<lparr>remetenteId = the mentorId, destinatarioId = chat_id selected,
                                create_content = text\<rparr> of
               Inl e \<Rightarrow> (Inr (), st)
             | Inr sentMessage \<Rightarrow>
                 (let newStudentChat = selected\<lparr>lastMessage := Some text, lastMessageTime := Some now,
                                                 unread := False\<rparr>
                  in (Inr (),
                      st\<lparr>studentsWithoutChats :=
                            filter (\<lambda>s. chat_id s \<noteq> chat_id selected) (studentsWithoutChats st),
                         studentsWithChats :=
                            newStudentChat # filter (\<lambda>s. chat_id s \<noteq> chat_id selected) (studentsWithChats st),
                         selectedStudent := Some newStudentChat\<rparr>))))"

definition handleStudentSelect :: "StudentChat \<Rightarrow> mentor_messages \<Rightarrow> mentor_messages" where
  "handleStudentSelect student st = st\<lparr>selectedStudent := Some student, mentor_showChatOnMobile := True\<rparr>"

definition mentorMounted :: mentor_messages where
  "mentorMounted =
     \<lparr>selectedStudent = None, studentsWithChats = [], studentsWithoutChats = [],
      mentor_loading = True, mentor_error = None, mentor_showChatOnMobile = False\<rparr>"

subsection \<open>The student's page\<close>

record student_messages =
  selectedMentor :: "MentorChat option"
  mentorsWithChats :: "MentorChat list"
  availableMentors :: "MentorChat list"
  student_loading :: bool
  student_error :: "page_error option"
  student_showChatOnMobile :: bool

definition mentorOf :: "MessageResponseDTO \<Rightarrow> UserResponseDTO option" where
  "mentorOf message =
     (if user_role (remetente message) = MENTOR then Some (remetente message)
      else if user_role (destinatario message) = MENTOR then Some (destinatario message)
      else None)"

text \<open>
  Here the record's time is \<open>new Date()\<close>, the clock when the record is made: \<open>now\<close>.
\<close>

definition addMentor :: "int \<Rightarrow> (string \<times> MentorChat) list \<Rightarrow> MessageResponseDTO \<Rightarrow> (string \<times> MentorChat) list" where
  "addMentor now mentorMap message =
     (case mentorOf message of
        None \<Rightarrow> mentorMap
      | Some mentor \<Rightarrow>
          if user_role mentor = MENTOR \<and> map_of mentorMap (user_id mentor) = None
          then mapSet mentorMap (user_id mentor)
                 \<lparr>chat_id = user_id mentor, chat_name = user_name mentor, avatar = None,
                  lastMessage = Some (content message), lastMessageTime = Some now, unread = False\<rparr>
          else mentorMap)"

text \<open>
  The \<open>forEach\<close> over the messages; \<open>clock i\<close> is what the clock reads while the message
  at index \<open>i\<close> is handled.
\<close>

fun scanMentors :: "(nat \<Rightarrow> int) \<Rightarrow> nat \<Rightarrow> (string \<times> MentorChat) list \<Rightarrow> MessageResponseDTO list
    \<Rightarrow> (string \<times> MentorChat) list" where
  "scanMentors clock i mentorMap [] = mentorMap"
| "scanMentors clock i mentorMap (message # rest) =
     scanMentors clock (Suc i) (addMentor (clock i) mentorMap message) rest"

definition mentorsWithChatsList :: "(nat \<Rightarrow> int) \<Rightarrow> MessageResponseDTO list \<Rightarrow> MessageResponseDTO list
    \<Rightarrow> MentorChat list" where
  "mentorsWithChatsList clock receivedMessages sentMessages =
     arraySort compareChats (map snd (scanMentors clock 0 [] (receivedMessages @ sentMessages)))"

definition availableMentorsList :: "MentorChat list \<Rightarrow> UserResponseDTO list \<Rightarrow> MentorChat list" where
  "availableMentorsList withChats availableMentorsResponse =
     map rosterChat
       (filter (\<lambda>mentor. user_id mentor \<notin> set (map chat_id withChats))
          (filter (\<lambda>mentor. user_role mentor = MENTOR) availableMentorsResponse))"

definition StudentMessages_fetchData :: "(nat \<Rightarrow> int) \<Rightarrow> string option \<Rightarrow> (api_error + MessageResponseDTO list)
    \<Rightarrow> (api_error + MessageResponseDTO list) \<Rightarrow> (api_error + UserResponseDTO list)
    \<Rightarrow> student_messages \<Rightarrow> student_messages" where
  "StudentMessages_fetchData clock studentId getReceivedMessages getSentMessages findAvailableMentorsForChat st =
     (if truthy studentId then
        (case getReceivedMessages of
           Inl e \<Rightarrow> st\<lparr>student_error := Some FetchFailed, student_loading := False\<rparr>
         | Inr receivedMessages \<Rightarrow>
        (case getSentMessages of
           Inl e \<Rightarrow> st\<lparr>student_error := Some FetchFailed, student_loading := False\<rparr>
         | Inr sentMessages \<Rightarrow>
        (case findAvailableMentorsForChat of
           Inl e \<Rightarrow> st\<lparr>student_error := Some FetchFailed, student_loading := False\<rparr>
         | Inr availableMentorsResponse \<Rightarrow>
             (let withChats = mentorsWithChatsList clock receivedMessages sentMessages;
                  available = availableMentorsList withChats availableMentorsResponse
              in st\<lparr>mentorsWithChats := withChats,
                    availableMentors := available,
                    student_error := (if withChats = [] \<and> available = []
                                      then Some NothingFound else None),
                    student_loading := False\<rparr>))))
      else st\<lparr>student_error := Some NoUserId, student_loading := False\<rparr>)"

text \<open>
  \<open>handleSendMessage\<close> of the student's page; \<open>clock 0\<close> and \<open>clock 1\<close> are the two
  readings of the clock it makes. Whether the mentor already has a chat is asked of the
  list the render saw.
\<close>

definition StudentMessages_handleSendMessage :: "(MessageCreateDTO \<Rightarrow> api_error + MessageResponseDTO)
    \<Rightarrow> (nat \<Rightarrow> int) \<Rightarrow> string option \<Rightarrow> student_messages \<Rightarrow> string \<Rightarrow> student_messages
    \<Rightarrow> (api_error + unit) \<times> student_messages" where
  "StudentMessages_handleSendMessage sendMessage clock studentId seen text st =
     (case selectedMentor seen of
        None \<Rightarrow> (Inr (), st)
      | Some selected \<Rightarrow>
          if \<not> truthy studentId then (Inr (), st)
          else
            (case sendMessage \<lparr>remetenteId = the studentId, destinatarioId = chat_id selected,
                                create_content = text\<rparr> of
               Inl e \<Rightarrow> (Inr (), st)
             | Inr sentMessage \<Rightarrow>
                 (let moved =
                        (if \<not> list_ex (\<lambda>m. chat_id m = chat_id selected) (mentorsWithChats seen)
                         then st\<lparr>availableMentors :=
                                    filter (\<lambda>m. chat_id m \<noteq> chat_id selected) (availableMentors st),
                                 mentorsWithChats :=
                                    selected\<lparr>lastMessage := Some (content sentMessage),
                                             lastMessageTime := Some (clock 0), unread := False\<rparr>
                                    # mentorsWithChats st\<rparr>
                         else st\<lparr>mentorsWithChats :=
                                    selected\<lparr>lastMessage := Some (content sentMessage),
                                             lastMessageTime := Some (clock 0), unread := False\<rparr>
                                    # filter (\<lambda>m. chat_id m \<noteq> chat_id selected) (mentorsWithChats st)\<rparr>)
                  in (Inr (),
                      moved\<lparr>selectedMentor :=
                              Some (selected\<lparr>lastMessage := Some text, lastMessageTime := Some (clock 1)\<rparr>)\<rparr>))))"

definition handleMentorSelect :: "MentorChat \<Rightarrow> student_messages \<Rightarrow> student_messages" where
  "handleMentorSelect mentor st = st\<lparr>selectedMentor := Some mentor, student_showChatOnMobile := True\<rparr>"

definition studentMounted :: student_messages where
  "studentMounted =
     \<lparr>selectedMentor = None, mentorsWithChats = [], availableMentors = [],
      student_loading = True, student_error = None, student_showChatOnMobile = False\<rparr>"

subsection \<open>Runs of the pages\<close>

text \<open>
  A run of a page, newest state first. The page loads once; afterwards the user selects
  a counterpart shown by some render, or a send issued from some render settles. The
  render \<open>seen\<close> that made a handler is the current state or an earlier one of the run.
\<close>

inductive mentorRun :: "mentor_messages list \<Rightarrow> bool" where
  mentorLoaded:
    "mentorRun [MentorMessages_fetchData mentorId getReceivedMessages getSentMessages getAllStudents
                  mentorMounted]"
| mentorSelected:
    "mentorRun (st # past) \<Longrightarrow> seen \<in> set (st # past)
       \<Longrightarrow> student \<in> set (studentsWithChats seen) \<union> set (studentsWithoutChats seen)
       \<Longrightarrow> mentorRun (st\<lparr>selectedStudent := Some student\<rparr> # st # past)"
| mentorSelectedOnMobile:
    "mentorRun (st # past) \<Longrightarrow> seen \<in> set (st # past)
       \<Longrightarrow> student \<in> set (studentsWithChats seen) \<union> set (studentsWithoutChats seen)
       \<Longrightarrow> mentorRun (handleStudentSelect student st # st # past)"
| mentorBackToList:
    "mentorRun (st # past) \<Longrightarrow> mentorRun (st\<lparr>mentor_showChatOnMobile := False\<rparr> # st # past)"
| mentorSent:
    "mentorRun (st # past) \<Longrightarrow> seen \<in> set (st # past)
       \<Longrightarrow> mentorRun (snd (MentorMessages_handleSendMessage sendMessage now mentorId seen text st) # st # past)"

inductive studentRun :: "student_messages list \<Rightarrow> bool" where
  studentLoaded:
    "studentRun [StudentMessages_fetchData clock studentId getReceivedMessages getSentMessages
                   findAvailableMentorsForChat studentMounted]"
| studentSelected:
    "studentRun (st # past) \<Longrightarrow> seen \<in> set (st # past)
       \<Longrightarrow> mentor \<in> set (mentorsWithChats seen) \<union> set (availableMentors seen)
       \<Longrightarrow> studentRun (st\<lparr>selectedMentor := Some mentor\<rparr> # st # past)"
| studentSelectedOnMobile:
    "studentRun (st # past) \<Longrightarrow> seen \<in> set (st # past)
       \<Longrightarrow> mentor \<in> set (mentorsWithChats seen) \<union> set (availableMentors seen)
       \<Longrightarrow> studentRun (handleMentorSelect mentor st # st # past)"
| studentBackToList:
    "studentRun (st # past) \<Longrightarrow> studentRun (st\<lparr>student_showChatOnMobile := False\<rparr> # st # past)"
| studentSent:
    "studentRun (st # past) \<Longrightarrow> seen \<in> set (st # past)
       \<Longrightarrow> studentRun (snd (StudentMessages_handleSendMessage sendMessage clock studentId seen text st) # st # past)"

subsection \<open>Vocabulary of the properties\<close>

text \<open>A message is about a counterpart when the page's scan files it under that id.\<close>

definition aboutStudent :: "string \<Rightarrow> MessageResponseDTO \<Rightarrow> bool" where
  "aboutStudent cid message = (map_option user_id (studentOf message) = Some cid)"

definition aboutMentor :: "string \<Rightarrow> MessageResponseDTO \<Rightarrow> bool" where
  "aboutMentor cid message = (map_option user_id (mentorOf message) = Some cid)"

text \<open>What the scans keep true of the map: each key once, each record under its own id and read.\<close>

definition keyed :: "(string \<times> chat) list \<Rightarrow> bool" where
  "keyed m = (distinct (map fst m) \<and> list_all (\<lambda>e. chat_id (snd e) = fst e \<and> \<not> unread (snd e)) m)"

text \<open>The ids of a list of counterpart records.\<close>

definition ids :: "chat list \<Rightarrow> string list" where
  "ids chats = map chat_id chats"

text \<open>Users and messages for the worked examples.\<close>

definition alice :: UserResponseDTO where
  "alice = \<lparr>user_id = ''A'', user_name = ''Alice'', user_role = MENTOR\<rparr>"

definition bob :: UserResponseDTO where
  "bob = \<lparr>user_id = ''B'', user_name = ''Bob'', user_role = ESTUDANTE\<rparr>"

definition say :: "UserResponseDTO \<Rightarrow> UserResponseDTO \<Rightarrow> string \<Rightarrow> MessageResponseDTO" where
  "say sender receiver text = \<lparr>remetente = sender, destinatario = receiver, content = text\<rparr>"

definition noon :: "nat \<Rightarrow> int" where
  "noon i = 43200000"

definition sendOk :: "MessageCreateDTO \<Rightarrow> api_error + MessageResponseDTO" where
  "sendOk messageData = Inr (say alice bob (create_content messageData))"

text \<open>The two lists of a page share no counterpart id.\<close>

definition mentorApart :: "mentor_messages \<Rightarrow> bool" where
  "mentorApart st = (set (ids (studentsWithChats st)) \<inter> set (ids (studentsWithoutChats st)) = {})"

definition studentApart :: "student_messages \<Rightarrow> bool" where
  "studentApart st = (set (ids (mentorsWithChats st)) \<inter> set (ids (availableMentors st)) = {})"

text \<open>
  Between an older and a newer state of the student's page the ids with a chat only
  grow and the available ids only shrink.
\<close>

definition grown :: "student_messages \<Rightarrow> student_messages \<Rightarrow> bool" where
  "grown newer older =
     (set (ids (mentorsWithChats older)) \<subseteq> set (ids (mentorsWithChats newer))
      \<and> set (ids (availableMentors newer)) \<subseteq> set (ids (availableMentors older)))"

text \<open>Every record a page holds, in either list or as the selection, is marked read.\<close>

definition allRead :: "chat list \<Rightarrow> chat list \<Rightarrow> chat option \<Rightarrow> bool" where
  "allRead withChats withoutChats selected =
     (list_all (\<lambda>c. \<not> unread c) withChats \<and> list_all (\<lambda>c. \<not> unread c) withoutChats
      \<and> (case selected of None \<Rightarrow> True | Some c \<Rightarrow> \<not> unread c))"

definition mentorAllRead :: "mentor_messages \<Rightarrow> bool" where
  "mentorAllRead st = allRead (studentsWithChats st) (studentsWithoutChats st) (selectedStudent st)"

definition studentAllRead :: "student_messages \<Rightarrow> bool" where
  "studentAllRead st = allRead (mentorsWithChats st) (availableMentors st) (selectedMentor st)"

text \<open>
  Two short runs for the worked examples: the page loads with no message and Bob (on the
  mentor's page) or Alice (on the student's page) in the roster, the user selects that
  counterpart, and a first message is sent.
\<close>

definition mentorPage0 :: mentor_messages where
  "mentorPage0 = MentorMessages_fetchData (Some ''m1'') (Inr []) (Inr []) (Inr [bob]) mentorMounted"

definition mentorPage1 :: mentor_messages where
  "mentorPage1 = mentorPage0\<lparr>selectedStudent := Some (rosterChat bob)\<rparr>"

definition mentorPage2 :: mentor_messages where
  "mentorPage2 = snd (MentorMessages_handleSendMessage sendOk 5 (Some ''m1'') mentorPage1 ''oi'' mentorPage1)"

definition studentPage0 :: student_messages where
  "studentPage0 = StudentMessages_fetchData noon (Some ''B'') (Inr []) (Inr []) (Inr [alice]) studentMounted"

definition studentPage1 :: student_messages where
  "studentPage1 = studentPage0\<lparr>selectedMentor := Some (rosterChat alice)\<rparr>"

definition studentPage2 :: student_messages where
  "studentPage2 = snd (StudentMessages_handleSendMessage sendOk noon (Some ''B'') studentPage1 ''oi'' studentPage1)"

text \<open>
  A second message, submitted before the first send has settled: its handler is still
  the closure of the render \<open>studentPage1\<close>, and it settles on \<open>studentPage2\<close>.
\<close>

definition studentPage3 :: student_messages where
  "studentPage3 = snd (StudentMessages_handleSendMessage sendOk noon (Some ''B'') studentPage1 ''ola'' studentPage2)"

text \<open>The ids a page lists, in either list.\<close>

definition mentorListed :: "mentor_messages \<Rightarrow> string set" where
  "mentorListed st = set (ids (studentsWithChats st)) \<union> set (ids (studentsWithoutChats st))"

text \<open>Each id the mentor's page lists is listed once, in one list.\<close>

definition mentorOnce :: "mentor_messages \<Rightarrow> bool" where
  "mentorOnce st = distinct (ids (studentsWithChats st) @ ids (studentsWithoutChats st))"

definition studentListed :: "student_messages \<Rightarrow> string set" where
  "studentListed st = set (ids (mentorsWithChats st)) \<union> set (ids (availableMentors st))"

section \<open>The chat panel (src/components/CourseChat.tsx)\<close>

text \<open>
  A rendered message. Its id is \<open>Date.now().toString()\<close>: the clock reading, kept as the
  number it prints.
\<close>

record ChatMessage =
  message_id :: nat
  message_user :: string
  message_avatar :: "string option"
  message_content :: string

record course_chat =
  messages :: "ChatMessage list"
  newMessage :: string
  chat_loading :: bool

text \<open>The label of the user's own messages ("You" in Portuguese, its last letter the code unit 0xEA).\<close>

definition ownLabel :: string where
  "ownLabel = [CHR ''V'', CHR ''o'', CHR ''c'', CHR 0xEA]"

text \<open>
  \<open>handleSendMessage\<close> of the panel. \<open>onSendMessage\<close> is the callback of the parent page:
  given the text and the parent's state it settles (fulfilled or rejected) and leaves the
  parent's new state. The result is the panel's state, the parent's state and the texts
  the callback was called with.
\<close>

definition CourseChat_handleSendMessage :: "(string \<Rightarrow> 'p \<Rightarrow> (api_error + unit) \<times> 'p) \<Rightarrow> string option
    \<Rightarrow> nat \<Rightarrow> course_chat \<Rightarrow> 'p \<Rightarrow> course_chat \<times> 'p \<times> string list" where
  "CourseChat_handleSendMessage onSendMessage mentorId now st parent =
     (if trim (newMessage st) = [] then (st, parent, [])
      else if \<not> truthy mentorId then (st, parent, [])
      else
        (let optimisticMessage = \<lparr>message_id = now, message_user = ownLabel, message_avatar = None,
                                   message_content = newMessage st\<rparr>;
             st1 = st\<lparr>messages := messages st @ [optimisticMessage], newMessage := []\<rparr>
         in (case onSendMessage (newMessage st) parent of
               (Inl e, parent') \<Rightarrow>
                 (st1\<lparr>messages := filter (\<lambda>msg. message_id msg \<noteq> message_id optimisticMessage) (messages st1)\<rparr>,
                  parent', [newMessage st])
             | (Inr u, parent') \<Rightarrow> (st1, parent', [newMessage st]))))"

text \<open>
  The panel as the mentor's page mounts it: the callback is that page's
  \<open>handleSendMessage\<close>, a closure of the render \<open>seen\<close>.
\<close>

definition mentorPanelSend :: "(MessageCreateDTO \<Rightarrow> api_error + MessageResponseDTO) \<Rightarrow> int \<Rightarrow> string option
    \<Rightarrow> mentor_messages \<Rightarrow> nat \<Rightarrow> course_chat \<Rightarrow> mentor_messages
    \<Rightarrow> course_chat \<times> mentor_messages \<times> string list" where
  "mentorPanelSend sendMessage pageNow mentorId seen now st page =
     CourseChat_handleSendMessage (MentorMessages_handleSendMessage sendMessage pageNow mentorId seen)
       mentorId now st page"

text \<open>Values for the worked examples.\<close>

definition sendFails :: "MessageCreateDTO \<Rightarrow> api_error + MessageResponseDTO" where
  "sendFails messageData = Inl ApiError"

definition ana :: chat where
  "ana = \<lparr>chat_id = ''s1'', chat_name = ''Ana'', avatar = None, lastMessage = None,
          lastMessageTime = None, unread = False\<rparr>"

definition pageWithAna :: mentor_messages where
  "pageWithAna = mentorMounted\<lparr>studentsWithoutChats := [ana], selectedStudent := Some ana,
     mentor_loading := False\<rparr>"

definition panelTyped :: "string \<Rightarrow> course_chat" where
  "panelTyped text = \<lparr>messages = [], newMessage = text, chat_loading = False\<rparr>"

section \<open>Properties of the route guard\<close>

lemma requiredRoleOf_nonempty: "requiredRoleOf r \<noteq> []"
  by (cases r) simp_all

text \<open>
  Claim C3. Once the storage has been read: with a token present and a role other than
  the one the route requires, the guard redirects to the dashboard root of the user's own
  role (\<open>/dashboard\<close>, \<open>/admin\<close> or \<open>/mentor\<close>), so a MENTOR on the student route goes to
  \<open>/mentor\<close> and not to \<open>/login\<close>; without a token the guard redirects to \<open>/login\<close>; and
  for a role that is none of the three known ones the path resolver gives \<open>/login\<close>.
\<close>

theorem route_guard_redirects:
  "authChecked s \<Longrightarrow>
     (isAuthenticated s \<and> userRole s \<noteq> Some (requiredRoleOf r) \<longrightarrow>
        guardRoute s r = Navigate (getDashboardPath (userRole s)))
   \<and> (isAuthenticated s \<and> userRole s = Some ''MENTOR'' \<longrightarrow>
        guardRoute s DashboardRoute = Navigate ''/mentor''
        \<and> guardRoute s DashboardRoute \<noteq> Navigate ''/login'')
   \<and> (\<not> isAuthenticated s \<longrightarrow> guardRoute s r = Navigate ''/login'')
   \<and> getDashboardPath (Some ''ESTUDANTE'') = ''/dashboard''
   \<and> getDashboardPath (Some ''ADMIN'') = ''/admin''
   \<and> getDashboardPath (Some ''MENTOR'') = ''/mentor''
   \<and> (role \<notin> {Some ''ESTUDANTE'', Some ''ADMIN'', Some ''MENTOR''} \<longrightarrow>
        getDashboardPath role = ''/login'')"
  by (simp add: guardRoute_def AuthWrapper_def truthy_def getDashboardPath_def
      requiredRoleOf_nonempty)

theorem route_guard_redirects_witness:
  "guardRoute \<lparr>authChecked = True, isAuthenticated = True, userRole = Some ''MENTOR''\<rparr> DashboardRoute
     = Navigate ''/mentor''
   \<and> guardRoute \<lparr>authChecked = True, isAuthenticated = True, userRole = Some ''MENTOR''\<rparr> AdminRoute
     = Navigate (getDashboardPath (Some ''MENTOR''))
   \<and> getDashboardPath (Some ''PROFESSOR'') = ''/login''"
  using route_guard_redirects
    [of "\<lparr>authChecked = True, isAuthenticated = True, userRole = Some ''MENTOR''\<rparr>"
        AdminRoute "Some ''PROFESSOR''"]
  by simp

section \<open>Properties of the calendar aggregation\<close>

lemma map_of_mapSet: "map_of (mapSet m k v) k' = (if k' = k then Some v else map_of m k')"
  by (induction m) auto

lemma countOf_countSession:
  "countOf (countSession P m s) k = countOf m k + (if datedOn P k s then 1 else 0)"
  by (auto simp: countSession_def datedOn_def countOf_def map_of_mapSet Let_def
      split: option.splits)

lemma countOf_foldl:
  "countOf (foldl (countSession P) m ss) k = countOf m k + length (filter (datedOn P k) ss)"
  by (induction ss arbitrary: m) (simp_all add: countOf_countSession)



lemma onDay_toEvent: "100 \<le> fst k \<Longrightarrow> onDay d (toEvent (k, n)) = (k = toDateString d)"
  by (cases k) (auto simp: onDay_def toEvent_def newDate_def toDateString_def)

text \<open>The days the map holds are those of the sessions counted, so plain years give plain keys.\<close>

lemma plain_keys_mapSet:
  "list_all (\<lambda>e. 100 \<le> fst (fst e)) m \<Longrightarrow> 100 \<le> fst k
     \<Longrightarrow> list_all (\<lambda>e. 100 \<le> fst (fst e)) (mapSet m k v)"
  by (induction m) auto

lemma plain_keys_countSession:
  "list_all (\<lambda>e. 100 \<le> fst (fst e)) m \<Longrightarrow> plainYear P s
     \<Longrightarrow> list_all (\<lambda>e. 100 \<le> fst (fst e)) (countSession P m s)"
  by (auto simp: countSession_def plainYear_def toDateString_def Let_def intro!: plain_keys_mapSet
      split: option.splits)

lemma plain_keys_foldl:
  "list_all (\<lambda>e. 100 \<le> fst (fst e)) m \<Longrightarrow> list_all (plainYear P) ss
     \<Longrightarrow> list_all (\<lambda>e. 100 \<le> fst (fst e)) (foldl (countSession P) m ss)"
  by (induction ss arbitrary: m) (simp_all add: plain_keys_countSession)

lemma event_sessions_toEvent: "event_sessions (toEvent (k, n)) = n"
  by (simp add: toEvent_def)

lemma getSessionCount_events:
  "list_all (\<lambda>e. 100 \<le> fst (fst e)) m
     \<Longrightarrow> getSessionCount (map toEvent m) (Some d) = countOf m (toDateString d)"
proof (induction m)
  case Nil
  show ?case by (simp add: getSessionCount_def countOf_def)
next
  case (Cons e m)
  obtain k n where e: "e = (k, n)" by (cases e)
  from Cons show ?case
    by (auto simp: e getSessionCount_def countOf_def onDay_toEvent event_sessions_toEvent)
qed


lemma getSessionCount_update:
  assumes "list_all (plainYear P) ss"
  shows "getSessionCount (updateCalendarEvents P ss) (Some d) = sessionsOn P d ss"
proof -
  have "countOf ([] :: (dateString \<times> nat) list) (toDateString d) = 0"
    by (simp add: countOf_def)
  moreover have "list_all (\<lambda>e. 100 \<le> fst (fst e)) (foldl (countSession P) [] ss)"
    using assms by (intro plain_keys_foldl) simp_all
  ultimately show ?thesis
    by (simp add: updateCalendarEvents_def getSessionCount_events countOf_foldl sessionsOn_def)
qed






section \<open>Properties of the session handlers\<close>

text \<open>
  The guard of \<open>handleStartMentoring\<close> tests the stored id for truthiness: with a
  non-empty id stored, a chat-type start changes nothing and shows the "already active"
  notification.
\<close>

lemma start_chat_while_active:
  "truthy (activeSession st) \<Longrightarrow> type \<noteq> CHAMADA_DE_VIDEO \<Longrightarrow>
     handleStartMentoring sessionId type link st = (st, [ToastError AlreadyActive])"
  by (simp add: handleStartMentoring_def)

text \<open>
  Claim C8. Confirming the edit-link dialog with a link that is empty after trimming is
  rejected: the only effect is the "invalid link" notification, so no call to the
  session-update endpoint is made, and the state, with its session lists, is unchanged.
\<close>

theorem edit_link_blank_rejected:
  "trim (newLink seen) = [] \<Longrightarrow>
     handleConfirmEditLink updateSession parseISO seen st = (st, [ToastError LinkInvalid])"
  by (simp add: handleConfirmEditLink_def split: option.splits)

theorem edit_link_blank_rejected_witness:
  "handleConfirmEditLink (\<lambda>i d. Inr (sampleSession i (Some ''2024-05-10''))) sampleParse
     (emptyPage\<lparr>sessionToEdit := Some (sampleSession ''a'' (Some ''2024-05-10'')),
                newLink := [CHR 0x20, CHR 0x09, CHR 0x20]\<rparr>)
     (emptyPage\<lparr>sessionToEdit := Some (sampleSession ''a'' (Some ''2024-05-10'')),
                newLink := [CHR 0x20, CHR 0x09, CHR 0x20]\<rparr>)
   = (emptyPage\<lparr>sessionToEdit := Some (sampleSession ''a'' (Some ''2024-05-10'')),
                newLink := [CHR 0x20, CHR 0x09, CHR 0x20]\<rparr>, [ToastError LinkInvalid])"
proof -
  have blank: "trim (newLink (emptyPage\<lparr>sessionToEdit := Some (sampleSession ''a'' (Some ''2024-05-10'')),
                newLink := [CHR 0x20, CHR 0x09, CHR 0x20]\<rparr>)) = []"
    by (simp add: trim_def isWhiteSpace_def)
  show ?thesis
    using edit_link_blank_rejected [OF blank] by simp
qed

section \<open>Deleting a session\<close>

lemma sample_facts:
  "sampleParse ''2024-05-10T09:00'' = Some \<lparr>getFullYear = 2024, getMonth = 4, getDate = 10, timeOfDay = 540\<rparr>"
  "sampleParse ''2024-05-10T14:30'' = Some \<lparr>getFullYear = 2024, getMonth = 4, getDate = 10, timeOfDay = 870\<rparr>"
  "session_date sessionA = Some ''2024-05-10T09:00''"
  "session_date sessionB = Some ''2024-05-10T14:30''"
  "session_id sessionA = ''A''" "session_id sessionB = ''B''"
  "session_mentor sessionA = ''m1''" "session_mentor sessionB = ''m1''"
  by (simp_all add: sampleParse_def sessionA_def sessionB_def sampleSession_def)

lemma events_of_A_and_B:
  "updateCalendarEvents sampleParse [sessionA, sessionB]
     = [\<lparr>event_date = Some \<lparr>getFullYear = 2024, getMonth = 4, getDate = 10, timeOfDay = 0\<rparr>, event_sessions = 2\<rparr>]"
  "updateCalendarEvents sampleParse [sessionA]
     = [\<lparr>event_date = Some \<lparr>getFullYear = 2024, getMonth = 4, getDate = 10, timeOfDay = 0\<rparr>, event_sessions = 1\<rparr>]"
  "updateCalendarEvents sampleParse [sessionB]
     = [\<lparr>event_date = Some \<lparr>getFullYear = 2024, getMonth = 4, getDate = 10, timeOfDay = 0\<rparr>, event_sessions = 1\<rparr>]"
  "updateCalendarEvents sampleParse [] = []"
  by (simp_all add: updateCalendarEvents_def countSession_def sample_facts truthy_def toDateString_def
      toEvent_def newDate_def)

lemma runLoaded_eq:
  "runLoaded = emptyPage\<lparr>mentoringSessions := [sessionA, sessionB],
     filteredSessions := [sessionA, sessionB],
     calendarEvents := updateCalendarEvents sampleParse [sessionA, sessionB],
     loading := False\<rparr>"
  by (simp add: runLoaded_def fetchSessions_def filterEffect_def filterSessionsByDate_def sample_facts
      emptyPage_def Let_def)

lemma runRefused_eq:
  "runRefused = emptyPage\<lparr>mentoringSessions := [sessionA],
     filteredSessions := [sessionA],
     calendarEvents := updateCalendarEvents sampleParse [sessionA],
     loading := False, activeSession := Some ''A''\<rparr>"
  by (simp add: runRefused_def runRefuseAsked_def runChatStarted_def runLoaded_eq
      handleConfirmRefuse_def handleRefuseSession_def handleStartMentoring_def closeDeleteDialog_def
      deleteOk_def removeSession_def filterEffect_def filterSessionsByDate_def truthy_def sample_facts
      emptyPage_def Let_def)

text \<open>
  Claim C5 on the run above. Session A is the only session left when it is ended, and
  the deletion succeeds. The visible list becomes empty, but the calendar is rebuilt from
  the list the notification's handler saw (A and B) without A, so the day still counts
  one session and is still marked, where the claim asks for the count to drop from 1 to
  0 and the day to be unmarked.
\<close>

theorem end_session_keeps_stale_day:
  "mentoringSessions runRefused = [sessionA]
   \<and> getSessionCount (calendarEvents runRefused) (Some may10) = 1
   \<and> mentoringSessions runEnded = []
   \<and> filteredSessions runEnded = []
   \<and> getSessionCount (calendarEvents runEnded) (Some may10) = 1
   \<and> isDayWithSession (calendarEvents runEnded) (Some may10)"
  by (simp add: runEnded_def runRefused_eq runLoaded_eq handleEndSession_def deleteOk_def
      removeSession_def filterEffect_def filterSessionsByDate_def sample_facts events_of_A_and_B
      getSessionCount_def isDayWithSession_def onDay_def may10_def emptyPage_def)

text \<open>
  What the delete handlers do when the list their render saw is the current one (the
  common case): the session leaves the stored and the visible list, the calendar is
  that of the remaining sessions, and with distinct ids the count of the deleted
  session's day drops by one.
\<close>

lemma removeSession_absent:
  "sessionId \<notin> session_id ` set sessions \<Longrightarrow> removeSession sessionId sessions = sessions"
  by (induction sessions) (auto simp: removeSession_def)

lemma sessionsOn_removeSession:
  "distinct (map session_id sessions) \<Longrightarrow> s \<in> set sessions \<Longrightarrow>
     sessionsOn P d (removeSession (session_id s) sessions)
       = sessionsOn P d sessions - (if datedOn P (toDateString d) s then 1 else 0)"
proof (induction sessions)
  case Nil
  then show ?case by simp
next
  case (Cons x xs)
  show ?case
  proof (cases "x = s")
    case True
    with Cons.prems have "removeSession (session_id s) xs = xs"
      by (intro removeSession_absent) auto
    with True show ?thesis
      by (simp add: sessionsOn_def removeSession_def)
  next
    case False
    with Cons.prems have "s \<in> set xs" "session_id x \<noteq> session_id s" "distinct (map session_id xs)"
      by auto
    moreover from \<open>s \<in> set xs\<close>
    have "datedOn P (toDateString d) s \<Longrightarrow> 0 < length (filter (datedOn P (toDateString d)) xs)"
      by (auto simp: filter_empty_conv)
    ultimately show ?thesis
      using Cons.IH by (auto simp: sessionsOn_def removeSession_def)
  qed
qed

lemma filterSessionsByDate_subset:
  "set (filterSessionsByDate P sessions d) \<subseteq> set sessions"
  by (cases d) (auto simp: filterSessionsByDate_def)

lemma plainYear_removeSession:
  "list_all (plainYear P) sessions \<Longrightarrow> list_all (plainYear P) (removeSession sessionId sessions)"
  by (simp add: removeSession_def list_all_iff)

lemma end_session_current_list:
  assumes "deleteSession sessionId = Inr ()" and "mentoringSessions seen = mentoringSessions st"
    and "list_all (plainYear P) (mentoringSessions st)"
  shows "mentoringSessions (fst (handleEndSession deleteSession P seen sessionId st))
           = removeSession sessionId (mentoringSessions st)"
    and "sessionId \<notin> session_id ` set (filteredSessions (fst (handleEndSession deleteSession P seen sessionId st)))"
    and "getSessionCount (calendarEvents (fst (handleEndSession deleteSession P seen sessionId st))) (Some d)
           = sessionsOn P d (removeSession sessionId (mentoringSessions st))"
    and "activeSession (fst (handleEndSession deleteSession P seen sessionId st)) = None"
  using assms filterSessionsByDate_subset [of P "removeSession sessionId (mentoringSessions st)" "date st"]
    getSessionCount_update [OF plainYear_removeSession [OF assms(3)], of sessionId d]
  by (auto simp: handleEndSession_def filterEffect_def removeSession_def)

lemma confirm_refuse_current_list:
  assumes "deleteSession sessionId = Inr ()" and "mentoringSessions seen = mentoringSessions st"
    and "sessionToDelete seen = Some sessionId" and "sessionId \<noteq> []"
    and "list_all (plainYear P) (mentoringSessions st)"
  shows "mentoringSessions (fst (handleConfirmRefuse deleteSession P seen st))
           = removeSession sessionId (mentoringSessions st)"
    and "sessionId \<notin> session_id ` set (filteredSessions (fst (handleConfirmRefuse deleteSession P seen st)))"
    and "getSessionCount (calendarEvents (fst (handleConfirmRefuse deleteSession P seen st))) (Some d)
           = sessionsOn P d (removeSession sessionId (mentoringSessions st))"
  using assms filterSessionsByDate_subset [of P "removeSession sessionId (mentoringSessions st)" "date st"]
    getSessionCount_update [OF plainYear_removeSession [OF assms(5)], of sessionId d]
  by (auto simp: handleConfirmRefuse_def filterEffect_def closeDeleteDialog_def
      removeSession_def truthy_def Let_def)

text \<open>
  Beside the claim on the calendar: a session dated in the year 50 is shown on the day
  of 1950, and a session dated before the year 0 on no day.
\<close>

lemma early_years_are_read_back_differently:
  "getSessionCount (updateCalendarEvents earlyParse [sampleSession ''h'' (Some ''0050-01-01'')])
     (Some \<lparr>getFullYear = 50, getMonth = 0, getDate = 1, timeOfDay = 0\<rparr>) = 0"
  "getSessionCount (updateCalendarEvents earlyParse [sampleSession ''h'' (Some ''0050-01-01'')])
     (Some \<lparr>getFullYear = 1950, getMonth = 0, getDate = 1, timeOfDay = 0\<rparr>) = 1"
  "\<not> isDayWithSession (updateCalendarEvents earlyParse [sampleSession ''n'' (Some ''-000001-01-01'')])
     (Some \<lparr>getFullYear = - 1, getMonth = 0, getDate = 1, timeOfDay = 0\<rparr>)"
  by (simp_all add: updateCalendarEvents_def countSession_def earlyParse_def sampleSession_def truthy_def
      toDateString_def toEvent_def newDate_def getSessionCount_def isDayWithSession_def onDay_def)

section \<open>Starting a chat while one is active\<close>

lemma ids_filterSessionsByDate:
  "list_all (\<lambda>s. session_id s \<noteq> []) sessions
     \<Longrightarrow> list_all (\<lambda>s. session_id s \<noteq> []) (filterSessionsByDate P sessions d)"
  by (cases d) (simp_all add: filterSessionsByDate_def list_all_iff)

lemma ids_removeSession:
  "list_all (\<lambda>s. session_id s \<noteq> []) sessions
     \<Longrightarrow> list_all (\<lambda>s. session_id s \<noteq> []) (removeSession sessionId sessions)"
  by (simp add: removeSession_def list_all_iff)

lemma idsPresent_filterEffect:
  "list_all (\<lambda>s. session_id s \<noteq> []) (mentoringSessions st)
     \<Longrightarrow> (case activeSession st of None \<Rightarrow> True | Some sessionId \<Rightarrow> sessionId \<noteq> [])
     \<Longrightarrow> idsPresent (filterEffect P st)"
  by (simp add: idsPresent_def filterEffect_def ids_filterSessionsByDate)

lemma idsPresent_fetchSessions:
  "idsPresent st \<Longrightarrow> (case response of Inl e \<Rightarrow> True | Inr sessions \<Rightarrow> list_all (\<lambda>s. session_id s \<noteq> []) sessions)
     \<Longrightarrow> idsPresent (fst (fetchSessions response P mentorId st))"
  by (cases response)
     (auto simp: fetchSessions_def idsPresent_def filterEffect_def Let_def list_all_iff
        dest!: subsetD [OF filterSessionsByDate_subset])

lemma idsPresent_handleStartMentoring:
  "idsPresent st \<Longrightarrow> sessionId \<noteq> []
     \<Longrightarrow> idsPresent (fst (handleStartMentoring sessionId type link st))"
  by (auto simp: handleStartMentoring_def idsPresent_def split: option.splits)

lemma idsPresent_handleEndSession:
  "idsPresent st \<Longrightarrow> idsPresent (fst (handleEndSession deleteSession P seen sessionId st))"
  by (cases "deleteSession sessionId")
     (simp_all add: handleEndSession_def idsPresent_def filterEffect_def ids_removeSession
        ids_filterSessionsByDate)

lemma idsPresent_handleConfirmRefuse:
  assumes "idsPresent st"
  shows "idsPresent (fst (handleConfirmRefuse deleteSession P seen st))"
proof (cases "truthy (sessionToDelete seen)")
  case False
  with assms show ?thesis by (simp add: handleConfirmRefuse_def)
next
  case True
  with assms show ?thesis
    by (cases "deleteSession (the (sessionToDelete seen))")
       (simp_all add: handleConfirmRefuse_def closeDeleteDialog_def idsPresent_def filterEffect_def
          ids_removeSession ids_filterSessionsByDate Let_def)
qed

lemma idsPresent_handleConfirmEditLink:
  assumes "idsPresent st" and "\<forall>i d s. updateSession i d = Inr s \<longrightarrow> session_id s \<noteq> []"
  shows "idsPresent (fst (handleConfirmEditLink updateSession P seen st))"
proof (cases "sessionToEdit seen")
  case None
  with assms(1) show ?thesis by (simp add: handleConfirmEditLink_def)
next
  case (Some edited)
  show ?thesis
  proof (cases "trim (newLink seen) = []")
    case True
    with Some assms(1) show ?thesis by (simp add: handleConfirmEditLink_def)
  next
    case False
    let ?data = "\<lparr>create_mentorId = session_mentor edited, create_studentId = session_student edited,
        create_title = session_title edited, create_date = session_date edited,
        create_dateHour = session_dateHour edited, create_type = session_type edited,
        create_link = trim (newLink seen)\<rparr>"
    show ?thesis
    proof (cases "updateSession (session_id edited) ?data")
      case (Inl e)
      with Some False assms(1) show ?thesis
        by (simp add: handleConfirmEditLink_def closeEditDialog_def idsPresent_def Let_def)
    next
      case (Inr updated)
      with assms(2) have "session_id updated \<noteq> []" by blast
      with Inr Some False assms(1) show ?thesis
        by (auto simp: handleConfirmEditLink_def closeEditDialog_def idsPresent_def filterEffect_def
            Let_def list_all_iff dest!: subsetD [OF filterSessionsByDate_subset] split: if_splits)
    qed
  qed
qed

lemma page_run_ids: "pageRun P run \<Longrightarrow> list_all idsPresent run"
proof (induction rule: pageRun.induct)
  case pageMounted
  show ?case by (simp add: idsPresent_def emptyPage_def)
next
  case sessionsFetched
  then show ?case by (simp add: idsPresent_fetchSessions)
next
  case fetchFailed
  then show ?case by (simp add: idsPresent_fetchSessions)
next
  case daySelected
  then show ?case by (simp add: idsPresent_def filterEffect_def ids_filterSessionsByDate)
next
  case (startPressed st past session)
  then have "session_id session \<noteq> []"
    by (auto simp: idsPresent_def list_all_iff)
  with startPressed show ?case by (simp add: idsPresent_handleStartMentoring)
next
  case endPressed
  then show ?case by (simp add: idsPresent_handleEndSession)
next
  case refusePressed
  then show ?case by (simp add: idsPresent_def handleRefuseSession_def)
next
  case refuseConfirmed
  then show ?case by (simp add: idsPresent_handleConfirmRefuse)
next
  case refuseCancelled
  then show ?case by (simp add: idsPresent_def)
next
  case deleteDialogToggled
  then show ?case by (simp add: idsPresent_def)
next
  case editPressed
  then show ?case by (simp add: idsPresent_def handleEditLink_def)
next
  case linkTyped
  then show ?case by (simp add: idsPresent_def)
next
  case editConfirmed
  then show ?case by (simp add: idsPresent_handleConfirmEditLink)
next
  case editCancelled
  then show ?case by (simp add: idsPresent_def)
next
  case editDialogToggled
  then show ?case by (simp add: idsPresent_def)
qed

text \<open>
  Claim C7. In every state of a run of the page in which \<open>activeSession\<close> is not null,
  an attempt to start a chat-type session, of whatever id, is rejected with the "already
  active" notification and nothing else happens: the state is unchanged, so
  \<open>activeSession\<close> still holds the first session and the session lists are as they were.
\<close>

theorem second_chat_is_rejected:
  "pageRun parseISO (st # past) \<Longrightarrow> activeSession st \<noteq> None \<Longrightarrow> type \<noteq> CHAMADA_DE_VIDEO \<Longrightarrow>
     handleStartMentoring sessionId type link st = (st, [ToastError AlreadyActive])
     \<and> activeSession (fst (handleStartMentoring sessionId type link st)) = activeSession st
     \<and> mentoringSessions (fst (handleStartMentoring sessionId type link st)) = mentoringSessions st
     \<and> filteredSessions (fst (handleStartMentoring sessionId type link st)) = filteredSessions st"
proof -
  assume run: "pageRun parseISO (st # past)" and active: "activeSession st \<noteq> None"
    and chat: "type \<noteq> CHAMADA_DE_VIDEO"
  from page_run_ids [OF run] have "idsPresent st" by simp
  with active have "truthy (activeSession st)"
    by (auto simp: idsPresent_def truthy_def)
  from start_chat_while_active [OF this chat]
  show ?thesis by simp
qed

lemma example_page_run: "pageRun sampleParse [runChatStarted, runLoaded, emptyPage, emptyPage\<lparr>date := Some may10\<rparr>]"
proof -
  have mounted: "pageRun sampleParse [emptyPage\<lparr>date := Some may10\<rparr>]"
    by (rule pageMounted)
  have "filterEffect sampleParse (emptyPage\<lparr>date := Some may10\<rparr>\<lparr>date := None\<rparr>) = emptyPage"
    by (simp add: filterEffect_def filterSessionsByDate_def emptyPage_def)
  with daySelected [OF mounted, of None]
  have cleared: "pageRun sampleParse [emptyPage, emptyPage\<lparr>date := Some may10\<rparr>]"
    by simp
  have "list_all (\<lambda>s. session_id s \<noteq> []) [sessionA, sessionB]"
    by (simp add: sample_facts)
  from sessionsFetched [OF cleared this, of "Some ''m1''"]
  have loaded: "pageRun sampleParse [runLoaded, emptyPage, emptyPage\<lparr>date := Some may10\<rparr>]"
    by (simp add: runLoaded_def)
  have shown: "sessionA \<in> set (filteredSessions runLoaded)"
    by (simp add: runLoaded_eq)
  have "fst (handleStartMentoring (session_id sessionA) (session_type sessionA) (session_link sessionA) runLoaded)
      = runChatStarted"
    by (simp add: runChatStarted_def sessionA_def sampleSession_def)
  with startPressed [OF loaded shown] show ?thesis by simp
qed

theorem second_chat_is_rejected_witness:
  "handleStartMentoring ''B'' CHAT None runChatStarted = (runChatStarted, [ToastError AlreadyActive])
   \<and> activeSession (fst (handleStartMentoring ''B'' CHAT None runChatStarted)) = Some ''A''"
proof -
  have active: "activeSession runChatStarted = Some ''A''"
    by (simp add: runChatStarted_def runLoaded_eq handleStartMentoring_def truthy_def emptyPage_def)
  then have "activeSession runChatStarted \<noteq> None" by simp
  from second_chat_is_rejected [OF example_page_run this, of CHAT "''B''" None] active
  show ?thesis by simp
qed

section \<open>Properties of the chat panel\<close>

text \<open>
  Claim C9. Submitting the form with an input that is empty after trimming, or with no
  current user id (missing or empty), does nothing: the message list and the whole panel
  state are unchanged, no optimistic message is appended, and the callback is not called
  (the parent's state is untouched).
\<close>

theorem blank_submit_is_noop:
  "trim (newMessage st) = [] \<or> \<not> truthy mentorId \<Longrightarrow>
     CourseChat_handleSendMessage onSendMessage mentorId now st parent = (st, parent, [])"
  by (auto simp: CourseChat_handleSendMessage_def)

theorem blank_submit_is_noop_witness:
  "CourseChat_handleSendMessage (MentorMessages_handleSendMessage sendFails 7 (Some ''m1'') pageWithAna)
     (Some ''m1'') 7 (panelTyped [CHR 0x20, CHR 0x0A]) pageWithAna
     = (panelTyped [CHR 0x20, CHR 0x0A], pageWithAna, [])
   \<and> CourseChat_handleSendMessage (MentorMessages_handleSendMessage sendFails 7 None pageWithAna)
     None 7 (panelTyped ''oi'') pageWithAna
     = (panelTyped ''oi'', pageWithAna, [])"
proof -
  have blank: "trim (newMessage (panelTyped [CHR 0x20, CHR 0x0A])) = []"
    by (simp add: panelTyped_def trim_def isWhiteSpace_def)
  have nobody: "\<not> truthy None"
    by (simp add: truthy_def)
  show ?thesis
    by (intro conjI) (rule blank_submit_is_noop [OF disjI1 [OF blank]],
        rule blank_submit_is_noop [OF disjI2 [OF nobody]])
qed

text \<open>
  The mentor page's callback settles as fulfilled whatever the send call does, so the
  panel's rollback is never reached through it.
\<close>

lemma mentor_callback_never_rejects:
  "fst (MentorMessages_handleSendMessage sendMessage now mentorId seen text page) = Inr ()"
  by (simp add: MentorMessages_handleSendMessage_def Let_def split: option.splits sum.splits)

lemma mentor_panel_keeps_optimistic:
  assumes "trim (newMessage st) \<noteq> []" and "truthy mentorId"
  shows "messages (fst (mentorPanelSend sendMessage pageNow mentorId seen now st page))
           = messages st @ [\<lparr>message_id = now, message_user = ownLabel, message_avatar = None,
                             message_content = newMessage st\<rparr>]"
proof -
  obtain page' where "MentorMessages_handleSendMessage sendMessage pageNow mentorId seen (newMessage st) page
      = (Inr (), page')"
    using mentor_callback_never_rejects [of sendMessage pageNow mentorId seen "newMessage st" page]
    by (cases "MentorMessages_handleSendMessage sendMessage pageNow mentorId seen (newMessage st) page") auto
  with assms show ?thesis
    by (simp add: mentorPanelSend_def CourseChat_handleSendMessage_def Let_def)
qed

text \<open>
  Claim C2 on the mentor's page. The mentor types "oi" into an empty panel and submits;
  the send call fails. The page's handler logs the failure and does not rethrow, so the
  panel's \<open>catch\<close> does not run: the list holds the optimistic message afterwards, its
  length 1 where it was 0 before the send.
\<close>

theorem failed_send_leaves_optimistic:
  "messages (panelTyped ''oi'') = []
   \<and> messages (fst (mentorPanelSend sendFails 7 (Some ''m1'') pageWithAna 7 (panelTyped ''oi'') pageWithAna))
       = [\<lparr>message_id = 7, message_user = ownLabel, message_avatar = None, message_content = ''oi''\<rparr>]
   \<and> length (messages (fst (mentorPanelSend sendFails 7 (Some ''m1'') pageWithAna 7 (panelTyped ''oi'') pageWithAna)))
       = 1
   \<and> fst (snd (mentorPanelSend sendFails 7 (Some ''m1'') pageWithAna 7 (panelTyped ''oi'') pageWithAna))
       = pageWithAna"
  by (simp add: mentorPanelSend_def CourseChat_handleSendMessage_def MentorMessages_handleSendMessage_def
      sendFails_def panelTyped_def pageWithAna_def trim_def isWhiteSpace_def truthy_def Let_def)

section \<open>Properties of the chat-list reconciliation\<close>

subsection \<open>The map of first messages\<close>

lemma mapSet_absent: "map_of m k = None \<Longrightarrow> mapSet m k v = m @ [(k, v)]"
  by (induction m) (auto split: if_splits)

lemma keyed_append:
  "keyed m \<Longrightarrow> map_of m k = None \<Longrightarrow> chat_id c = k \<Longrightarrow> \<not> unread c \<Longrightarrow> keyed (m @ [(k, c)])"
  by (auto simp: keyed_def map_of_eq_None_iff)

lemma studentOf_role: "studentOf m = Some s \<Longrightarrow> user_role s = ESTUDANTE"
  by (auto simp: studentOf_def split: if_splits)

lemma mentorOf_role: "mentorOf m = Some s \<Longrightarrow> user_role s = MENTOR"
  by (auto simp: mentorOf_def split: if_splits)

lemma keyed_addStudent: "keyed m \<Longrightarrow> keyed (addStudent m message)"
  by (auto simp: addStudent_def mapSet_absent intro!: keyed_append split: option.splits)

lemma keyed_addMentor: "keyed m \<Longrightarrow> keyed (addMentor now m message)"
  by (auto simp: addMentor_def mapSet_absent intro!: keyed_append split: option.splits)

lemma keyed_foldl_addStudent: "keyed m \<Longrightarrow> keyed (foldl addStudent m ms)"
  by (induction ms arbitrary: m) (simp_all add: keyed_addStudent)

lemma keyed_scanMentors: "keyed m \<Longrightarrow> keyed (scanMentors clock i m ms)"
  by (induction ms arbitrary: m i) (simp_all add: keyed_addMentor)

lemma lookup_addStudent:
  "map_option lastMessage (map_of (addStudent m message) cid)
     = (case map_of m cid of
          Some c \<Rightarrow> Some (lastMessage c)
        | None \<Rightarrow> if aboutStudent cid message then Some (Some (content message)) else None)"
  by (auto simp: addStudent_def aboutStudent_def map_of_mapSet studentOf_role split: option.splits)

lemma lookup_addMentor:
  "map_option lastMessage (map_of (addMentor now m message) cid)
     = (case map_of m cid of
          Some c \<Rightarrow> Some (lastMessage c)
        | None \<Rightarrow> if aboutMentor cid message then Some (Some (content message)) else None)"
  by (auto simp: addMentor_def aboutMentor_def map_of_mapSet mentorOf_role split: option.splits)

lemma lookup_foldl_addStudent:
  "map_option lastMessage (map_of (foldl addStudent m ms) cid)
     = (case map_of m cid of
          Some c \<Rightarrow> Some (lastMessage c)
        | None \<Rightarrow> map_option (\<lambda>message. Some (content message)) (find (aboutStudent cid) ms))"
proof (induction ms arbitrary: m)
  case Nil
  show ?case by (simp split: option.splits)
next
  case (Cons message ms)
  show ?case
    using Cons.IH [of "addStudent m message"] lookup_addStudent [of m message cid]
    by (cases "map_of (addStudent m message) cid"; cases "map_of m cid")
       (auto split: if_splits)
qed

lemma lookup_scanMentors:
  "map_option lastMessage (map_of (scanMentors clock i m ms) cid)
     = (case map_of m cid of
          Some c \<Rightarrow> Some (lastMessage c)
        | None \<Rightarrow> map_option (\<lambda>message. Some (content message)) (find (aboutMentor cid) ms))"
proof (induction ms arbitrary: m i)
  case Nil
  show ?case by (simp split: option.splits)
next
  case (Cons message ms)
  show ?case
    using Cons.IH [of "Suc i" "addMentor (clock i) m message"]
          lookup_addMentor [of "clock i" m message cid]
    by (cases "map_of (addMentor (clock i) m message) cid"; cases "map_of m cid")
       (auto split: if_splits)
qed

subsection \<open>Sorting keeps the records\<close>

lemma set_insertSorted: "set (insertSorted cmp x ys) = insert x (set ys)"
  by (induction ys) auto

lemma set_arraySort: "set (arraySort cmp xs) = set xs"
  by (induction xs) (simp_all add: arraySort_def set_insertSorted)

lemma distinct_map_insertSorted:
  "distinct (map f (insertSorted cmp x ys)) = (f x \<notin> f ` set ys \<and> distinct (map f ys))"
  by (induction ys) (auto simp: set_insertSorted)

lemma distinct_map_arraySort: "distinct (map f (arraySort cmp xs)) = distinct (map f xs)"
proof (induction xs)
  case Nil
  show ?case by (simp add: arraySort_def)
next
  case (Cons x xs)
  have "arraySort cmp (x # xs) = insertSorted cmp x (arraySort cmp xs)"
    by (simp add: arraySort_def)
  with Cons show ?case
    by (simp add: distinct_map_insertSorted set_arraySort)
qed

lemma insertSorted_untimed:
  "lastMessageTime x = None \<Longrightarrow> list_all (\<lambda>c. lastMessageTime c = None) ys
     \<Longrightarrow> insertSorted compareChats x ys = x # ys"
  by (cases ys) (simp_all add: compareChats_def)

lemma arraySort_untimed:
  "list_all (\<lambda>c. lastMessageTime c = None) xs \<Longrightarrow> arraySort compareChats xs = xs"
proof (induction xs)
  case Nil
  show ?case by (simp add: arraySort_def)
next
  case (Cons x xs)
  then have "arraySort compareChats xs = xs" by simp
  moreover have "arraySort compareChats (x # xs) = insertSorted compareChats x (arraySort compareChats xs)"
    by (simp add: arraySort_def)
  ultimately show ?case
    using Cons.prems by (simp add: insertSorted_untimed)
qed

subsection \<open>One record for each counterpart\<close>

lemma keyed_ids: "keyed m \<Longrightarrow> map chat_id (map snd m) = map fst m"
  by (induction m) (auto simp: keyed_def)

lemma keyed_lookup: "keyed m \<Longrightarrow> c \<in> set (map snd m) \<Longrightarrow> map_of m (chat_id c) = Some c"
  by (auto simp: keyed_def list_all_iff)

lemma keyed_read: "keyed m \<Longrightarrow> c \<in> set (map snd m) \<Longrightarrow> \<not> unread c"
  by (auto simp: keyed_def list_all_iff)

lemma keyed_empty: "keyed []"
  by (simp add: keyed_def)

lemma find_present: "(find P xs \<noteq> None) = (\<exists>x\<in>set xs. P x)"
  by (induction xs) auto

lemma keys_are_present: "fst ` set m = {k. map_option f (map_of m k) \<noteq> None}"
proof -
  have "(k \<in> fst ` set m) = (map_option f (map_of m k) \<noteq> None)" for k
    using map_of_eq_None_iff [of m k] by (cases "map_of m k") simp_all
  then show ?thesis by blast
qed

lemma student_records:
  fixes ms :: "MessageResponseDTO list"
  defines "m \<equiv> foldl addStudent [] ms"
  shows "distinct (map chat_id (map snd m))"
    and "set (map chat_id (map snd m)) = {cid. \<exists>message\<in>set ms. aboutStudent cid message}"
    and "c \<in> set (map snd m) \<Longrightarrow>
          lastMessage c = map_option content (find (aboutStudent (chat_id c)) ms)"
    and "c \<in> set (map snd m) \<Longrightarrow> \<not> unread c"
proof -
  have k: "keyed m"
    unfolding m_def by (rule keyed_foldl_addStudent [OF keyed_empty])
  have look: "map_option lastMessage (map_of m cid)
      = map_option (\<lambda>message. Some (content message)) (find (aboutStudent cid) ms)" for cid
    unfolding m_def using lookup_foldl_addStudent [of "[]" ms cid] by simp
  show "distinct (map chat_id (map snd m))"
    unfolding keyed_ids [OF k] using k by (simp add: keyed_def)
  have "set (map chat_id (map snd m)) = fst ` set m"
    unfolding keyed_ids [OF k] by simp
  also have "\<dots> = {cid. map_option lastMessage (map_of m cid) \<noteq> None}"
    by (rule keys_are_present)
  also have "\<dots> = {cid. \<exists>message\<in>set ms. aboutStudent cid message}"
    by (simp add: look find_present [symmetric] del: not_None_eq)
  finally show "set (map chat_id (map snd m)) = {cid. \<exists>message\<in>set ms. aboutStudent cid message}" .
  show "lastMessage c = map_option content (find (aboutStudent (chat_id c)) ms)"
    if "c \<in> set (map snd m)"
    using look [of "chat_id c"] keyed_lookup [OF k that]
    by (cases "find (aboutStudent (chat_id c)) ms") simp_all
  show "\<not> unread c" if "c \<in> set (map snd m)"
    using keyed_read [OF k that] .
qed

lemma mentor_records:
  fixes ms :: "MessageResponseDTO list" and clock :: "nat \<Rightarrow> int"
  defines "m \<equiv> scanMentors clock 0 [] ms"
  shows "distinct (map chat_id (map snd m))"
    and "set (map chat_id (map snd m)) = {cid. \<exists>message\<in>set ms. aboutMentor cid message}"
    and "c \<in> set (map snd m) \<Longrightarrow>
          lastMessage c = map_option content (find (aboutMentor (chat_id c)) ms)"
    and "c \<in> set (map snd m) \<Longrightarrow> \<not> unread c"
proof -
  have k: "keyed m"
    unfolding m_def by (rule keyed_scanMentors [OF keyed_empty])
  have look: "map_option lastMessage (map_of m cid)
      = map_option (\<lambda>message. Some (content message)) (find (aboutMentor cid) ms)" for cid
    unfolding m_def using lookup_scanMentors [of clock 0 "[]" ms cid] by simp
  show "distinct (map chat_id (map snd m))"
    unfolding keyed_ids [OF k] using k by (simp add: keyed_def)
  have "set (map chat_id (map snd m)) = fst ` set m"
    unfolding keyed_ids [OF k] by simp
  also have "\<dots> = {cid. map_option lastMessage (map_of m cid) \<noteq> None}"
    by (rule keys_are_present)
  also have "\<dots> = {cid. \<exists>message\<in>set ms. aboutMentor cid message}"
    by (simp add: look find_present [symmetric] del: not_None_eq)
  finally show "set (map chat_id (map snd m)) = {cid. \<exists>message\<in>set ms. aboutMentor cid message}" .
  show "lastMessage c = map_option content (find (aboutMentor (chat_id c)) ms)"
    if "c \<in> set (map snd m)"
    using look [of "chat_id c"] keyed_lookup [OF k that]
    by (cases "find (aboutMentor (chat_id c)) ms") simp_all
  show "\<not> unread c" if "c \<in> set (map snd m)"
    using keyed_read [OF k that] .
qed

lemma studentsWithChatsList_ids:
  "set (map chat_id (studentsWithChatsList received sent))
     = {cid. \<exists>message\<in>set (received @ sent). aboutStudent cid message}"
proof -
  have "set (map chat_id (studentsWithChatsList received sent))
      = chat_id ` set (map snd (foldl addStudent [] (rev (received @ sent))))"
    by (simp only: studentsWithChatsList_def set_map set_arraySort)
  also have "\<dots> = set (map chat_id (map snd (foldl addStudent [] (rev (received @ sent)))))"
    by (simp only: set_map)
  also have "\<dots> = {cid. \<exists>message\<in>set (rev (received @ sent)). aboutStudent cid message}"
    by (rule student_records(2))
  also have "\<dots> = {cid. \<exists>message\<in>set (received @ sent). aboutStudent cid message}"
    by (simp only: set_rev)
  finally show ?thesis .
qed

lemma studentsWithChatsList_distinct: "distinct (map chat_id (studentsWithChatsList received sent))"
  by (simp only: studentsWithChatsList_def distinct_map_arraySort student_records(1))

lemma studentsWithChatsList_member:
  "(c \<in> set (studentsWithChatsList received sent))
     = (c \<in> set (map snd (foldl addStudent [] (rev (received @ sent)))))"
  by (simp only: studentsWithChatsList_def set_arraySort)

lemma mentorsWithChatsList_ids:
  "set (map chat_id (mentorsWithChatsList clock received sent))
     = {cid. \<exists>message\<in>set (received @ sent). aboutMentor cid message}"
proof -
  have "set (map chat_id (mentorsWithChatsList clock received sent))
      = chat_id ` set (map snd (scanMentors clock 0 [] (received @ sent)))"
    by (simp only: mentorsWithChatsList_def set_map set_arraySort)
  also have "\<dots> = set (map chat_id (map snd (scanMentors clock 0 [] (received @ sent))))"
    by (simp only: set_map)
  also have "\<dots> = {cid. \<exists>message\<in>set (received @ sent). aboutMentor cid message}"
    by (rule mentor_records(2))
  finally show ?thesis .
qed

lemma mentorsWithChatsList_distinct: "distinct (map chat_id (mentorsWithChatsList clock received sent))"
  by (simp only: mentorsWithChatsList_def distinct_map_arraySort mentor_records(1))

lemma mentorsWithChatsList_member:
  "(c \<in> set (mentorsWithChatsList clock received sent))
     = (c \<in> set (map snd (scanMentors clock 0 [] (received @ sent))))"
  by (simp only: mentorsWithChatsList_def set_arraySort)

text \<open>
  Claim C1, as stated, fails on both pages. On the student's page the received messages
  come before the sent ones: with one message "x" received from mentor A and one message
  "y" sent to A, the record of A shows "x", while the first message about A in
  sent-then-received order is "y". On the mentor's page the concatenation is reversed
  before the scan: with "one" and then "two" sent to student B, the record of B shows
  "two", while the first message about B in sent-then-received order is "one".
\<close>

theorem first_message_counterexample:
  "map lastMessage (mentorsWithChatsList noon [say alice bob ''x''] [say bob alice ''y'']) = [Some ''x'']
   \<and> map_option content (find (aboutMentor ''A'') ([say bob alice ''y''] @ [say alice bob ''x''])) = Some ''y''
   \<and> map lastMessage (studentsWithChatsList [] [say alice bob ''one'', say alice bob ''two'']) = [Some ''two'']
   \<and> map_option content (find (aboutStudent ''B'') ([say alice bob ''one'', say alice bob ''two''] @ []))
       = Some ''one''"
  by (simp add: mentorsWithChatsList_def studentsWithChatsList_def arraySort_def addMentor_def
      addStudent_def mentorOf_def studentOf_def aboutMentor_def aboutStudent_def say_def alice_def
      bob_def)

text \<open>
  Claim C1, amended. In every reconciliation, each counterpart id that some received or
  sent message is about gets exactly one summary record, and no other record is made. On
  the student's page its \<open>lastMessage\<close> is the content of the first message about that
  counterpart in the order received-then-sent. On the mentor's page that concatenation
  is reversed before the scan, so \<open>lastMessage\<close> is the content of the last message about
  the counterpart in the order received-then-sent.
\<close>

theorem first_message_kept:
  "distinct (map chat_id (mentorsWithChatsList clock received sent))
   \<and> set (map chat_id (mentorsWithChatsList clock received sent))
       = {cid. \<exists>message\<in>set (received @ sent). aboutMentor cid message}
   \<and> (\<forall>c\<in>set (mentorsWithChatsList clock received sent).
         lastMessage c = map_option content (find (aboutMentor (chat_id c)) (received @ sent)))
   \<and> distinct (map chat_id (studentsWithChatsList received sent))
   \<and> set (map chat_id (studentsWithChatsList received sent))
       = {cid. \<exists>message\<in>set (received @ sent). aboutStudent cid message}
   \<and> (\<forall>c\<in>set (studentsWithChatsList received sent).
         lastMessage c = map_option content (find (aboutStudent (chat_id c)) (rev (received @ sent))))"
  by (intro conjI ballI)
     (rule mentorsWithChatsList_distinct, rule mentorsWithChatsList_ids,
      simp only: mentorsWithChatsList_member mentor_records(3),
      rule studentsWithChatsList_distinct, rule studentsWithChatsList_ids,
      simp only: studentsWithChatsList_member student_records(3))

theorem first_message_kept_witness:
  "lastMessage \<lparr>chat_id = ''A'', chat_name = ''Alice'', avatar = None, lastMessage = Some ''x'',
                lastMessageTime = Some 43200000, unread = False\<rparr>
     = map_option content (find (aboutMentor ''A'') ([say alice bob ''x''] @ [say bob alice ''y'']))
   \<and> lastMessage \<lparr>chat_id = ''B'', chat_name = ''Bob'', avatar = None, lastMessage = Some ''two'',
                lastMessageTime = None, unread = False\<rparr>
     = map_option content (find (aboutStudent ''B'') (rev ([] @ [say alice bob ''one'', say alice bob ''two''])))
   \<and> distinct (map chat_id (mentorsWithChatsList noon [say alice bob ''x''] [say bob alice ''y'']))"
proof -
  have mentors: "mentorsWithChatsList noon [say alice bob ''x''] [say bob alice ''y'']
      = [\<lparr>chat_id = ''A'', chat_name = ''Alice'', avatar = None, lastMessage = Some ''x'',
           lastMessageTime = Some 43200000, unread = False\<rparr>]"
    by (simp add: mentorsWithChatsList_def arraySort_def addMentor_def mentorOf_def say_def alice_def
        bob_def noon_def)
  have students: "studentsWithChatsList [] [say alice bob ''one'', say alice bob ''two'']
      = [\<lparr>chat_id = ''B'', chat_name = ''Bob'', avatar = None, lastMessage = Some ''two'',
           lastMessageTime = None, unread = False\<rparr>]"
    by (simp add: studentsWithChatsList_def arraySort_def addStudent_def studentOf_def say_def
        alice_def bob_def)
  show ?thesis
    using first_message_kept [of noon "[say alice bob ''x'']" "[say bob alice ''y'']"]
          first_message_kept [of noon "[]" "[say alice bob ''one'', say alice bob ''two'']"]
    unfolding mentors students by simp
qed

section \<open>Properties of the runs of the messaging pages\<close>

subsection \<open>The two lists stay apart\<close>

lemma ids_filter_other: "set (ids (filter (\<lambda>s. chat_id s \<noteq> k) cs)) = set (ids cs) - {k}"
  by (auto simp: ids_def)

lemma filter_other_absent: "k \<notin> set (ids cs) \<Longrightarrow> filter (\<lambda>s. chat_id s \<noteq> k) cs = cs"
  by (induction cs) (auto simp: ids_def)

lemma list_ex_ids: "list_ex (\<lambda>m. chat_id m = k) cs = (k \<in> set (ids cs))"
  by (induction cs) (auto simp: ids_def)

lemma studentsWithoutChatsList_apart:
  "set (ids withChats) \<inter> set (ids (studentsWithoutChatsList withChats roster)) = {}"
  by (force simp: ids_def studentsWithoutChatsList_def rosterChat_def)

lemma availableMentorsList_apart:
  "set (ids withChats) \<inter> set (ids (availableMentorsList withChats roster)) = {}"
  by (force simp: ids_def availableMentorsList_def rosterChat_def)

lemma mentor_fetch_apart:
  "mentorApart (MentorMessages_fetchData mentorId received sent roster mentorMounted)"
  by (simp add: MentorMessages_fetchData_def mentorApart_def studentsWithoutChatsList_apart Let_def
      split: sum.splits)
     (simp add: mentorMounted_def ids_def)

lemma student_fetch_apart:
  "studentApart (StudentMessages_fetchData clock studentId received sent roster studentMounted)"
  by (simp add: StudentMessages_fetchData_def studentApart_def availableMentorsList_apart Let_def
      split: sum.splits)
     (simp add: studentMounted_def ids_def)

lemma mentor_send_apart:
  "mentorApart st \<Longrightarrow> mentorApart (snd (MentorMessages_handleSendMessage sendMessage now mentorId seen text st))"
  by (auto simp: MentorMessages_handleSendMessage_def mentorApart_def ids_def Let_def
      split: option.splits sum.splits)

lemma mentor_run_apart: "mentorRun run \<Longrightarrow> list_all mentorApart run"
proof (induction rule: mentorRun.induct)
  case mentorLoaded
  show ?case by (simp add: mentor_fetch_apart)
next
  case mentorSelected
  then show ?case by (simp add: mentorApart_def)
next
  case mentorSelectedOnMobile
  then show ?case by (simp add: mentorApart_def handleStudentSelect_def)
next
  case mentorBackToList
  then show ?case by (simp add: mentorApart_def)
next
  case mentorSent
  then show ?case by (simp add: mentor_send_apart)
qed

lemma grown_refl: "grown st st"
  by (simp add: grown_def)

lemma grown_trans: "grown a b \<Longrightarrow> grown b c \<Longrightarrow> grown a c"
  by (auto simp: grown_def)

lemma student_send_grown:
  "grown (snd (StudentMessages_handleSendMessage sendMessage clock studentId seen text st)) st"
  by (auto simp: StudentMessages_handleSendMessage_def grown_def ids_def Let_def
      split: option.splits sum.splits)

lemma student_send_apart:
  assumes "studentApart st" and "studentApart seen" and "grown st seen"
  shows "studentApart (snd (StudentMessages_handleSendMessage sendMessage clock studentId seen text st))"
proof (cases "selectedMentor seen")
  case None
  with assms(1) show ?thesis by (simp add: StudentMessages_handleSendMessage_def)
next
  case (Some selected)
  have known: "chat_id selected \<notin> set (ids (availableMentors st))"
    if "list_ex (\<lambda>m. chat_id m = chat_id selected) (mentorsWithChats seen)"
  proof -
    from that have "chat_id selected \<in> set (ids (mentorsWithChats seen))"
      by (simp add: list_ex_ids)
    with assms(2) have "chat_id selected \<notin> set (ids (availableMentors seen))"
      by (auto simp: studentApart_def)
    with assms(3) show ?thesis by (auto simp: grown_def)
  qed
  from assms(1) known Some show ?thesis
    by (auto simp: StudentMessages_handleSendMessage_def studentApart_def ids_def Let_def
        split: sum.splits)
qed

lemma student_run_apart: "studentRun run \<Longrightarrow> list_all studentApart run \<and> sorted_wrt grown run"
proof (induction rule: studentRun.induct)
  case studentLoaded
  show ?case by (simp add: student_fetch_apart)
next
  case (studentSelected st past seen mentor)
  then have "grown (st\<lparr>selectedMentor := Some mentor\<rparr>) y" if "y \<in> set (st # past)" for y
    using that by (auto simp: grown_def)
  with studentSelected show ?case by (simp add: studentApart_def)
next
  case (studentSelectedOnMobile st past seen mentor)
  then have "grown (handleMentorSelect mentor st) y" if "y \<in> set (st # past)" for y
    using that by (auto simp: grown_def handleMentorSelect_def)
  with studentSelectedOnMobile show ?case by (simp add: studentApart_def handleMentorSelect_def)
next
  case (studentBackToList st past)
  then have "grown (st\<lparr>student_showChatOnMobile := False\<rparr>) y" if "y \<in> set (st # past)" for y
    using that by (auto simp: grown_def)
  with studentBackToList show ?case by (simp add: studentApart_def)
next
  case (studentSent st past seen sendMessage clock studentId msg)
  let ?new = "snd (StudentMessages_handleSendMessage sendMessage clock studentId seen msg st)"
  from studentSent have older: "grown st y" if "y \<in> set (st # past)" for y
    using that by (auto simp: grown_refl)
  have "grown ?new y" if "y \<in> set (st # past)" for y
    using grown_trans [OF student_send_grown older [OF that]] .
  moreover from studentSent have "studentApart st" "studentApart seen"
    by (auto simp: list_all_iff)
  then have "studentApart ?new"
    using older [OF studentSent.hyps(2)] by (rule student_send_apart)
  ultimately show ?case using studentSent by simp
qed

subsection \<open>The first message to a counterpart\<close>

lemma mentor_first_send:
  assumes "mentorApart st" and "selectedStudent seen = Some c" and "truthy mentorId"
    and "sendMessage \<lparr>remetenteId = the mentorId, destinatarioId = chat_id c, create_content = msg\<rparr>
           = Inr reply"
    and "chat_id c \<in> set (ids (studentsWithoutChats st))"
  shows "chat_id c \<notin> set (ids (studentsWithChats st))"
    and "studentsWithChats (snd (MentorMessages_handleSendMessage sendMessage now mentorId seen msg st))
           = c\<lparr>lastMessage := Some msg, lastMessageTime := Some now, unread := False\<rparr> # studentsWithChats st"
    and "chat_id c \<notin> set (ids (studentsWithoutChats
           (snd (MentorMessages_handleSendMessage sendMessage now mentorId seen msg st))))"
proof -
  show fresh: "chat_id c \<notin> set (ids (studentsWithChats st))"
    using assms(1,5) by (auto simp: mentorApart_def)
  show "studentsWithChats (snd (MentorMessages_handleSendMessage sendMessage now mentorId seen msg st))
           = c\<lparr>lastMessage := Some msg, lastMessageTime := Some now, unread := False\<rparr> # studentsWithChats st"
    using assms(2,3,4) filter_other_absent [OF fresh]
    by (simp add: MentorMessages_handleSendMessage_def Let_def)
  show "chat_id c \<notin> set (ids (studentsWithoutChats
           (snd (MentorMessages_handleSendMessage sendMessage now mentorId seen msg st))))"
    using assms(2,3,4)
    by (simp add: MentorMessages_handleSendMessage_def Let_def ids_filter_other)
qed

lemma student_first_send:
  assumes "studentApart st" and "grown st seen" and "selectedMentor seen = Some c" and "truthy studentId"
    and "sendMessage \<lparr>remetenteId = the studentId, destinatarioId = chat_id c, create_content = msg\<rparr>
           = Inr reply"
    and "chat_id c \<in> set (ids (availableMentors st))"
  shows "chat_id c \<notin> set (ids (mentorsWithChats st))"
    and "mentorsWithChats (snd (StudentMessages_handleSendMessage sendMessage clock studentId seen msg st))
           = c\<lparr>lastMessage := Some (content reply), lastMessageTime := Some (clock 0), unread := False\<rparr>
             # mentorsWithChats st"
    and "chat_id c \<notin> set (ids (availableMentors
           (snd (StudentMessages_handleSendMessage sendMessage clock studentId seen msg st))))"
proof -
  show fresh: "chat_id c \<notin> set (ids (mentorsWithChats st))"
    using assms(1,6) by (auto simp: studentApart_def)
  with assms(2) have unseen: "\<not> list_ex (\<lambda>m. chat_id m = chat_id c) (mentorsWithChats seen)"
    by (auto simp: list_ex_ids grown_def)
  show "mentorsWithChats (snd (StudentMessages_handleSendMessage sendMessage clock studentId seen msg st))
           = c\<lparr>lastMessage := Some (content reply), lastMessageTime := Some (clock 0), unread := False\<rparr>
             # mentorsWithChats st"
    using assms(3,4,5) unseen
    by (simp add: StudentMessages_handleSendMessage_def Let_def)
  show "chat_id c \<notin> set (ids (availableMentors
           (snd (StudentMessages_handleSendMessage sendMessage clock studentId seen msg st))))"
    using assms(3,4,5) unseen
    by (simp add: StudentMessages_handleSendMessage_def Let_def ids_filter_other)
qed

text \<open>
  What holds in every run of either page: from the moment reconciliation completes and
  through every selection and send, no counterpart id is in both lists. And when a send
  succeeds to the selected counterpart while, as it settles, that counterpart is in the
  "available" list, the new "with chats" list is the counterpart's record followed by
  the old list, in which its id did not occur, and its id is no longer in the
  "available" list.
\<close>

lemma lists_apart_and_first_send:
  "(mentorRun mrun \<longrightarrow>
      (\<forall>st\<in>set mrun. set (ids (studentsWithChats st)) \<inter> set (ids (studentsWithoutChats st)) = {}))
   \<and> (studentRun srun \<longrightarrow>
      (\<forall>st\<in>set srun. set (ids (mentorsWithChats st)) \<inter> set (ids (availableMentors st)) = {}))
   \<and> (mentorRun (mst # mpast) \<and> mseen \<in> set (mst # mpast) \<and> selectedStudent mseen = Some student
        \<and> truthy mentorId
        \<and> sendAsMentor \<lparr>remetenteId = the mentorId, destinatarioId = chat_id student, create_content = msg\<rparr>
            = Inr reply
        \<and> chat_id student \<in> set (ids (studentsWithoutChats mst)) \<longrightarrow>
      studentsWithChats (snd (MentorMessages_handleSendMessage sendAsMentor now mentorId mseen msg mst))
        = student\<lparr>lastMessage := Some msg, lastMessageTime := Some now, unread := False\<rparr>
          # studentsWithChats mst
      \<and> chat_id student \<notin> set (ids (studentsWithChats mst))
      \<and> chat_id student \<notin> set (ids (studentsWithoutChats
            (snd (MentorMessages_handleSendMessage sendAsMentor now mentorId mseen msg mst)))))
   \<and> (studentRun (sst # spast) \<and> sseen \<in> set (sst # spast) \<and> selectedMentor sseen = Some mentor
        \<and> truthy studentId
        \<and> sendAsStudent \<lparr>remetenteId = the studentId, destinatarioId = chat_id mentor, create_content = msg\<rparr>
            = Inr reply
        \<and> chat_id mentor \<in> set (ids (availableMentors sst)) \<longrightarrow>
      mentorsWithChats (snd (StudentMessages_handleSendMessage sendAsStudent clock studentId sseen msg sst))
        = mentor\<lparr>lastMessage := Some (content reply), lastMessageTime := Some (clock 0), unread := False\<rparr>
          # mentorsWithChats sst
      \<and> chat_id mentor \<notin> set (ids (mentorsWithChats sst))
      \<and> chat_id mentor \<notin> set (ids (availableMentors
            (snd (StudentMessages_handleSendMessage sendAsStudent clock studentId sseen msg sst)))))"
proof (intro conjI impI)
  assume "mentorRun mrun"
  from mentor_run_apart [OF this]
  show "\<forall>st\<in>set mrun. set (ids (studentsWithChats st)) \<inter> set (ids (studentsWithoutChats st)) = {}"
    by (simp add: list_all_iff mentorApart_def)
next
  assume "studentRun srun"
  from student_run_apart [OF this]
  show "\<forall>st\<in>set srun. set (ids (mentorsWithChats st)) \<inter> set (ids (availableMentors st)) = {}"
    by (simp add: list_all_iff studentApart_def)
next
  assume a: "mentorRun (mst # mpast) \<and> mseen \<in> set (mst # mpast) \<and> selectedStudent mseen = Some student
        \<and> truthy mentorId
        \<and> sendAsMentor \<lparr>remetenteId = the mentorId, destinatarioId = chat_id student, create_content = msg\<rparr>
            = Inr reply
        \<and> chat_id student \<in> set (ids (studentsWithoutChats mst))"
  then have apart: "mentorApart mst"
    using mentor_run_apart [of "mst # mpast"] by simp
  from a have rest: "selectedStudent mseen = Some student" "truthy mentorId"
    "sendAsMentor \<lparr>remetenteId = the mentorId, destinatarioId = chat_id student, create_content = msg\<rparr>
       = Inr reply"
    "chat_id student \<in> set (ids (studentsWithoutChats mst))"
    by simp_all
  show "studentsWithChats (snd (MentorMessages_handleSendMessage sendAsMentor now mentorId mseen msg mst))
        = student\<lparr>lastMessage := Some msg, lastMessageTime := Some now, unread := False\<rparr>
          # studentsWithChats mst"
    by (rule mentor_first_send(2) [where sendMessage = sendAsMentor, OF apart rest])
  show "chat_id student \<notin> set (ids (studentsWithChats mst))"
    by (rule mentor_first_send(1) [where sendMessage = sendAsMentor, OF apart rest])
  show "chat_id student \<notin> set (ids (studentsWithoutChats
            (snd (MentorMessages_handleSendMessage sendAsMentor now mentorId mseen msg mst))))"
    by (rule mentor_first_send(3) [where sendMessage = sendAsMentor, OF apart rest])
next
  assume a: "studentRun (sst # spast) \<and> sseen \<in> set (sst # spast) \<and> selectedMentor sseen = Some mentor
        \<and> truthy studentId
        \<and> sendAsStudent \<lparr>remetenteId = the studentId, destinatarioId = chat_id mentor, create_content = msg\<rparr>
            = Inr reply
        \<and> chat_id mentor \<in> set (ids (availableMentors sst))"
  then have inv: "list_all studentApart (sst # spast)" "sorted_wrt grown (sst # spast)"
    using student_run_apart [of "sst # spast"] by simp_all
  then have apart: "studentApart sst" by simp
  from a inv(2) have older: "grown sst sseen"
    by (auto simp: grown_refl)
  from a have rest: "selectedMentor sseen = Some mentor" "truthy studentId"
    "sendAsStudent \<lparr>remetenteId = the studentId, destinatarioId = chat_id mentor, create_content = msg\<rparr>
       = Inr reply"
    "chat_id mentor \<in> set (ids (availableMentors sst))"
    by simp_all
  show "mentorsWithChats (snd (StudentMessages_handleSendMessage sendAsStudent clock studentId sseen msg sst))
        = mentor\<lparr>lastMessage := Some (content reply), lastMessageTime := Some (clock 0), unread := False\<rparr>
          # mentorsWithChats sst"
    by (rule student_first_send(2) [where sendMessage = sendAsStudent, OF apart older rest])
  show "chat_id mentor \<notin> set (ids (mentorsWithChats sst))"
    by (rule student_first_send(1) [where sendMessage = sendAsStudent, OF apart older rest])
  show "chat_id mentor \<notin> set (ids (availableMentors
            (snd (StudentMessages_handleSendMessage sendAsStudent clock studentId sseen msg sst))))"
    by (rule student_first_send(3) [where sendMessage = sendAsStudent, OF apart older rest])
qed

lemma mentor_pages:
  "studentsWithChats mentorPage0 = []" "studentsWithoutChats mentorPage0 = [rosterChat bob]"
  "studentsWithChats mentorPage1 = []" "studentsWithoutChats mentorPage1 = [rosterChat bob]"
  "selectedStudent mentorPage1 = Some (rosterChat bob)"
  by (simp_all add: mentorPage1_def mentorPage0_def MentorMessages_fetchData_def truthy_def
      studentsWithChatsList_def studentsWithoutChatsList_def arraySort_def bob_def mentorMounted_def)

lemma student_pages:
  "mentorsWithChats studentPage0 = []" "availableMentors studentPage0 = [rosterChat alice]"
  "mentorsWithChats studentPage1 = []" "availableMentors studentPage1 = [rosterChat alice]"
  "selectedMentor studentPage1 = Some (rosterChat alice)"
  by (simp_all add: studentPage1_def studentPage0_def StudentMessages_fetchData_def truthy_def
      mentorsWithChatsList_def availableMentorsList_def arraySort_def alice_def studentMounted_def)

lemma mentor_example_run:
  "mentorRun [mentorPage1, mentorPage0]" "mentorRun [mentorPage2, mentorPage1, mentorPage0]"
proof -
  have loaded: "mentorRun [mentorPage0]"
    unfolding mentorPage0_def by (rule mentorLoaded)
  show selected: "mentorRun [mentorPage1, mentorPage0]"
    unfolding mentorPage1_def
    by (rule mentorSelected [OF loaded, of mentorPage0]) (simp_all add: mentor_pages)
  show "mentorRun [mentorPage2, mentorPage1, mentorPage0]"
    unfolding mentorPage2_def
    by (rule mentorSent [OF selected]) simp
qed

lemma student_example_run:
  "studentRun [studentPage1, studentPage0]" "studentRun [studentPage2, studentPage1, studentPage0]"
proof -
  have loaded: "studentRun [studentPage0]"
    unfolding studentPage0_def by (rule studentLoaded)
  show selected: "studentRun [studentPage1, studentPage0]"
    unfolding studentPage1_def
    by (rule studentSelected [OF loaded, of studentPage0]) (simp_all add: student_pages)
  show "studentRun [studentPage2, studentPage1, studentPage0]"
    unfolding studentPage2_def
    by (rule studentSent [OF selected]) simp
qed

subsection \<open>A counterpart is listed, and on the mentor's page once\<close>

lemma mentor_load_lists_everyone:
  "truthy mentorId \<Longrightarrow>
     mentorListed (MentorMessages_fetchData mentorId (Inr received) (Inr sent) (Inr roster) mentorMounted)
       = {cid. \<exists>message\<in>set (received @ sent). aboutStudent cid message}
         \<union> {user_id u |u. u \<in> set roster \<and> user_role u = ESTUDANTE}"
  using studentsWithChatsList_ids [of received sent]
  by (auto simp: MentorMessages_fetchData_def mentorListed_def ids_def studentsWithoutChatsList_def
      rosterChat_def Let_def)

lemma student_load_lists_everyone:
  "truthy studentId \<Longrightarrow>
     studentListed (StudentMessages_fetchData clock studentId (Inr received) (Inr sent) (Inr roster) studentMounted)
       = {cid. \<exists>message\<in>set (received @ sent). aboutMentor cid message}
         \<union> {user_id u |u. u \<in> set roster \<and> user_role u = MENTOR}"
  using mentorsWithChatsList_ids [of clock received sent]
  by (auto simp: StudentMessages_fetchData_def studentListed_def ids_def availableMentorsList_def
      rosterChat_def Let_def)

lemma mentor_send_keeps_listed:
  "mentorListed st \<subseteq> mentorListed (snd (MentorMessages_handleSendMessage sendMessage now mentorId seen msg st))"
  by (auto simp: MentorMessages_handleSendMessage_def mentorListed_def ids_def Let_def
      split: option.splits sum.splits)

lemma student_send_keeps_listed:
  "studentListed st \<subseteq> studentListed (snd (StudentMessages_handleSendMessage sendMessage clock studentId seen msg st))"
  by (auto simp: StudentMessages_handleSendMessage_def studentListed_def ids_def Let_def
      split: option.splits sum.splits)

lemma mentor_run_keeps_listed: "mentorRun run \<Longrightarrow> list_all (\<lambda>st. mentorListed (last run) \<subseteq> mentorListed st) run"
proof (induction rule: mentorRun.induct)
  case mentorLoaded
  show ?case by simp
next
  case mentorSelected
  then show ?case by (simp add: mentorListed_def)
next
  case mentorSelectedOnMobile
  then show ?case by (simp add: mentorListed_def handleStudentSelect_def)
next
  case mentorBackToList
  then show ?case by (simp add: mentorListed_def)
next
  case (mentorSent st past seen sendMessage now mentorId msg)
  then show ?case
    using mentor_send_keeps_listed [of st sendMessage now mentorId seen msg] by auto
qed

lemma student_run_keeps_listed: "studentRun run \<Longrightarrow> list_all (\<lambda>st. studentListed (last run) \<subseteq> studentListed st) run"
proof (induction rule: studentRun.induct)
  case studentLoaded
  show ?case by simp
next
  case studentSelected
  then show ?case by (simp add: studentListed_def)
next
  case studentSelectedOnMobile
  then show ?case by (simp add: studentListed_def handleMentorSelect_def)
next
  case studentBackToList
  then show ?case by (simp add: studentListed_def)
next
  case (studentSent st past seen sendMessage clock studentId msg)
  then show ?case
    using student_send_keeps_listed [of st sendMessage clock studentId seen msg] by auto
qed

text \<open>
  The mentor's page removes the selected student from both lists before it puts the new
  record at the head, on every send: if the roster names each student once, every id is
  listed once, in one list, throughout the run.
\<close>

lemma mentor_send_keeps_once:
  "mentorOnce st \<Longrightarrow> mentorOnce (snd (MentorMessages_handleSendMessage sendMessage now mentorId seen msg st))"
  by (auto simp: mentorOnce_def MentorMessages_handleSendMessage_def ids_def distinct_map_filter Let_def
      split: option.splits sum.splits)

lemma distinct_map_filter_more:
  "distinct (map f (filter P xs)) \<Longrightarrow> distinct (map f (filter (\<lambda>x. P x \<and> Q x) xs))"
  by (induction xs) (auto split: if_splits)

lemma mentor_load_once:
  "distinct (map user_id (filter (\<lambda>u. user_role u = ESTUDANTE) roster)) \<Longrightarrow>
     mentorOnce (MentorMessages_fetchData mentorId received sent (Inr roster) mentorMounted)"
proof -
  assume roster: "distinct (map user_id (filter (\<lambda>u. user_role u = ESTUDANTE) roster))"
  have without: "distinct (ids (studentsWithoutChatsList withChats roster))" for withChats
  proof -
    have "ids (studentsWithoutChatsList withChats roster)
        = map user_id (filter (\<lambda>u. user_role u = ESTUDANTE \<and> user_id u \<notin> set (map chat_id withChats))
            roster)"
      by (simp add: ids_def studentsWithoutChatsList_def rosterChat_def comp_def)
    with distinct_map_filter_more [OF roster] show ?thesis by simp
  qed
  show ?thesis
    using studentsWithoutChatsList_apart studentsWithChatsList_distinct without
    by (auto simp: mentorOnce_def MentorMessages_fetchData_def mentorMounted_def ids_def Let_def
        split: sum.splits)
qed

lemma mentor_run_once:
  "mentorRun run \<Longrightarrow> mentorOnce (last run) \<Longrightarrow> list_all mentorOnce run"
proof (induction rule: mentorRun.induct)
  case mentorLoaded
  then show ?case by simp
next
  case mentorSelected
  then show ?case by (simp add: mentorOnce_def)
next
  case mentorSelectedOnMobile
  then show ?case by (simp add: mentorOnce_def handleStudentSelect_def)
next
  case mentorBackToList
  then show ?case by (simp add: mentorOnce_def)
next
  case mentorSent
  then show ?case by (simp add: mentor_send_keeps_once)
qed

text \<open>
  Claim C6 on the student's page. Alice is in the "available" list and selected. The
  student submits "oi" and, before that send has settled, "ola": both handlers are
  closures of the same render, in which Alice has no chat. When the first send settles
  Alice moves to the head of the "with chats" list. When the second settles, the handler
  asks the list its render saw, finds no chat of Alice, and puts a second record of her
  at the head of the current list without removing the first: her id is then listed
  twice, where the claim has her inserted exactly once.
\<close>

theorem second_send_lists_mentor_twice:
  "ids (mentorsWithChats studentPage1) = [] \<and> ids (availableMentors studentPage1) = [''A'']
   \<and> ids (mentorsWithChats studentPage2) = [''A''] \<and> ids (availableMentors studentPage2) = []
   \<and> ids (mentorsWithChats studentPage3) = [''A'', ''A''] \<and> ids (availableMentors studentPage3) = []"
proof -
  have second: "mentorsWithChats studentPage2
      = [rosterChat alice\<lparr>lastMessage := Some ''oi'', lastMessageTime := Some 43200000, unread := False\<rparr>]"
    "availableMentors studentPage2 = []"
    by (simp_all add: studentPage2_def StudentMessages_handleSendMessage_def student_pages sendOk_def
        truthy_def noon_def say_def Let_def)
  then have "ids (mentorsWithChats studentPage3) = [''A'', ''A'']" "ids (availableMentors studentPage3) = []"
    by (simp_all add: studentPage3_def StudentMessages_handleSendMessage_def student_pages sendOk_def
        truthy_def ids_def rosterChat_def alice_def Let_def)
  with second show ?thesis
    by (simp add: student_pages ids_def rosterChat_def alice_def)
qed

text \<open>The three states are a run of the page.\<close>

lemma student_second_send_run: "studentRun [studentPage3, studentPage2, studentPage1, studentPage0]"
  unfolding studentPage3_def by (rule studentSent [OF student_example_run(2)]) simp

lemma mentor_send_keeps_ids_distinct:
  "distinct (ids (studentsWithChats st))
     \<Longrightarrow> distinct (ids (studentsWithChats
           (snd (MentorMessages_handleSendMessage sendMessage now mentorId seen msg st))))"
  by (auto simp: MentorMessages_handleSendMessage_def ids_def distinct_map_filter Let_def
      split: option.splits sum.splits)

subsection \<open>Every record is marked read\<close>

lemma studentsWithChatsList_read: "list_all (\<lambda>c. \<not> unread c) (studentsWithChatsList received sent)"
  by (simp only: list_all_iff studentsWithChatsList_def set_arraySort) (blast dest: student_records(4))

lemma mentorsWithChatsList_read: "list_all (\<lambda>c. \<not> unread c) (mentorsWithChatsList clock received sent)"
  by (simp only: list_all_iff mentorsWithChatsList_def set_arraySort) (blast dest: mentor_records(4))

lemma roster_read:
  "list_all (\<lambda>c. \<not> unread c) (studentsWithoutChatsList withChats roster)"
  "list_all (\<lambda>c. \<not> unread c) (availableMentorsList withChats roster)"
  by (simp_all add: list_all_iff studentsWithoutChatsList_def availableMentorsList_def rosterChat_def)

lemma mentor_fetch_read:
  "mentorAllRead (MentorMessages_fetchData mentorId received sent roster mentorMounted)"
  by (simp add: MentorMessages_fetchData_def mentorAllRead_def allRead_def studentsWithChatsList_read
      roster_read Let_def split: sum.splits)
     (simp add: mentorMounted_def)

lemma student_fetch_read:
  "studentAllRead (StudentMessages_fetchData clock studentId received sent roster studentMounted)"
  by (simp add: StudentMessages_fetchData_def studentAllRead_def allRead_def mentorsWithChatsList_read
      roster_read Let_def split: sum.splits)
     (simp add: studentMounted_def)

lemma mentor_send_read:
  "mentorAllRead st \<Longrightarrow> mentorAllRead (snd (MentorMessages_handleSendMessage sendMessage now mentorId seen msg st))"
  by (auto simp: MentorMessages_handleSendMessage_def mentorAllRead_def allRead_def list_all_iff Let_def
      split: option.splits sum.splits)

lemma student_send_read:
  "studentAllRead st \<Longrightarrow> studentAllRead seen
     \<Longrightarrow> studentAllRead (snd (StudentMessages_handleSendMessage sendMessage clock studentId seen msg st))"
  by (auto simp: StudentMessages_handleSendMessage_def studentAllRead_def allRead_def list_all_iff Let_def
      split: option.splits sum.splits)

lemma allRead_member:
  "allRead withChats withoutChats selected \<Longrightarrow> c \<in> set withChats \<union> set withoutChats \<Longrightarrow> \<not> unread c"
  by (auto simp: allRead_def list_all_iff)

lemma mentor_run_read: "mentorRun run \<Longrightarrow> list_all mentorAllRead run"
proof (induction rule: mentorRun.induct)
  case mentorLoaded
  show ?case by (simp add: mentor_fetch_read)
next
  case (mentorSelected st past seen student)
  then have "mentorAllRead seen" by (auto simp: list_all_iff)
  with mentorSelected have "\<not> unread student"
    by (auto simp: mentorAllRead_def dest: allRead_member)
  with mentorSelected show ?case by (simp add: mentorAllRead_def allRead_def)
next
  case (mentorSelectedOnMobile st past seen student)
  then have "mentorAllRead seen" by (auto simp: list_all_iff)
  with mentorSelectedOnMobile have "\<not> unread student"
    by (auto simp: mentorAllRead_def dest: allRead_member)
  with mentorSelectedOnMobile show ?case
    by (simp add: mentorAllRead_def allRead_def handleStudentSelect_def)
next
  case mentorBackToList
  then show ?case by (simp add: mentorAllRead_def)
next
  case mentorSent
  then show ?case by (simp add: mentor_send_read)
qed

lemma student_run_read: "studentRun run \<Longrightarrow> list_all studentAllRead run"
proof (induction rule: studentRun.induct)
  case studentLoaded
  show ?case by (simp add: student_fetch_read)
next
  case (studentSelected st past seen mentor)
  then have "studentAllRead seen" by (auto simp: list_all_iff)
  with studentSelected have "\<not> unread mentor"
    by (auto simp: studentAllRead_def dest: allRead_member)
  with studentSelected show ?case by (simp add: studentAllRead_def allRead_def)
next
  case (studentSelectedOnMobile st past seen mentor)
  then have "studentAllRead seen" by (auto simp: list_all_iff)
  with studentSelectedOnMobile have "\<not> unread mentor"
    by (auto simp: studentAllRead_def dest: allRead_member)
  with studentSelectedOnMobile show ?case
    by (simp add: studentAllRead_def allRead_def handleMentorSelect_def)
next
  case studentBackToList
  then show ?case by (simp add: studentAllRead_def)
next
  case (studentSent st past seen sendMessage clock studentId msg)
  then have "studentAllRead st" "studentAllRead seen" by (auto simp: list_all_iff)
  then have "studentAllRead (snd (StudentMessages_handleSendMessage sendMessage clock studentId seen msg st))"
    by (rule student_send_read)
  with studentSent show ?case by simp
qed

text \<open>
  Claim C10. In every run of either page, every counterpart record the page holds, in
  the "with chats" list, in the "available" list or as the selection, whether made by
  reconciliation, by the roster mapping or by a send, has \<open>unread\<close> false.
\<close>

theorem unread_is_always_false:
  "(mentorRun mrun \<longrightarrow>
      (\<forall>st\<in>set mrun.
         (\<forall>c\<in>set (studentsWithChats st) \<union> set (studentsWithoutChats st). \<not> unread c)
         \<and> (\<forall>c. selectedStudent st = Some c \<longrightarrow> \<not> unread c)))
   \<and> (studentRun srun \<longrightarrow>
      (\<forall>st\<in>set srun.
         (\<forall>c\<in>set (mentorsWithChats st) \<union> set (availableMentors st). \<not> unread c)
         \<and> (\<forall>c. selectedMentor st = Some c \<longrightarrow> \<not> unread c)))"
proof (intro conjI impI)
  assume "mentorRun mrun"
  from mentor_run_read [OF this]
  show "\<forall>st\<in>set mrun.
         (\<forall>c\<in>set (studentsWithChats st) \<union> set (studentsWithoutChats st). \<not> unread c)
         \<and> (\<forall>c. selectedStudent st = Some c \<longrightarrow> \<not> unread c)"
    by (auto simp: list_all_iff mentorAllRead_def allRead_def)
next
  assume "studentRun srun"
  from student_run_read [OF this]
  show "\<forall>st\<in>set srun.
         (\<forall>c\<in>set (mentorsWithChats st) \<union> set (availableMentors st). \<not> unread c)
         \<and> (\<forall>c. selectedMentor st = Some c \<longrightarrow> \<not> unread c)"
    by (auto simp: list_all_iff studentAllRead_def allRead_def)
qed

lemma example_selections:
  "selectedStudent mentorPage2
     = Some (rosterChat bob\<lparr>lastMessage := Some ''oi'', lastMessageTime := Some 5, unread := False\<rparr>)"
  "selectedMentor studentPage2
     = Some (rosterChat alice\<lparr>lastMessage := Some ''oi'', lastMessageTime := Some 43200000\<rparr>)"
  by (simp_all add: mentorPage2_def studentPage2_def MentorMessages_handleSendMessage_def
      StudentMessages_handleSendMessage_def mentor_pages student_pages sendOk_def truthy_def noon_def
      Let_def)

theorem unread_is_always_false_witness:
  "\<not> unread (rosterChat bob\<lparr>lastMessage := Some ''oi'', lastMessageTime := Some 5, unread := False\<rparr>)
   \<and> \<not> unread (rosterChat alice\<lparr>lastMessage := Some ''oi'', lastMessageTime := Some 43200000\<rparr>)
   \<and> \<not> unread (rosterChat bob)"
proof -
  have "rosterChat bob \<in> set (studentsWithChats mentorPage1) \<union> set (studentsWithoutChats mentorPage1)"
    by (simp add: mentor_pages)
  then show ?thesis
    using unread_is_always_false
      [of "[mentorPage2, mentorPage1, mentorPage0]" "[studentPage2, studentPage1, studentPage0]"]
      mentor_example_run(2) student_example_run(2) example_selections
    by auto
qed

end
